theory Spec2Isabelle
  imports Main "HOL-Library.Word"
begin

unbundle bit_operations_syntax

section \<open>Setting cells of dbms/src/Core/SettingsCommon.cpp\<close>

text \<open>
  Every member function of a setting becomes a function on the cell's data. A function
  that stores takes the cell and returns the cell after the store; one that can throw
  returns \<open>Exception + cell\<close>, where \<open>Inl\<close> is the exception: in this file every
  \<open>throw\<close> comes before the store of its function, so an \<open>Inl\<close> result means that
  nothing was stored. A const member function is a function from the cell to the value
  it returns. Serialization appends to the bytes written so far; deserialization takes
  the bytes not yet read and returns the rest with the cell.
\<close>

subsection \<open>Basic types, exceptions, interchange values\<close>

type_synonym UInt64 = "64 word"
type_synonym Int64 = "64 word"
type_synonym String = string

text \<open>
  The error codes the file declares, and after them the two kinds of failure of helpers
  that live outside the file (reading past the end of a buffer, a number that does not
  parse).
\<close>

datatype ErrorCode =
    TYPE_MISMATCH
  | UNKNOWN_LOAD_BALANCING
  | UNKNOWN_OVERFLOW_MODE
  | ILLEGAL_OVERFLOW_MODE
  | UNKNOWN_TOTALS_MODE
  | UNKNOWN_COMPRESSION_METHOD
  | UNKNOWN_DISTRIBUTED_PRODUCT_MODE
  | UNKNOWN_GLOBAL_SUBQUERIES_METHOD
  | UNKNOWN_JOIN_STRICTNESS
  | UNKNOWN_LOG_LEVEL
  | SIZE_OF_FIXED_STRING_DOESNT_MATCH
  | BAD_ARGUMENTS
  | UNKNOWN_SETTING
  | CANNOT_PARSE_BOOL
  | CANNOT_READ_ALL_DATA
  | INVALID_NUMERIC_LITERAL

datatype Exception = Exception String ErrorCode

text \<open>
  Modelled from the spec: the generic interchange value (Core/Field.h is not among the
  sources), "a tagged union capable of holding an unsigned integer, signed integer,
  float, or string". The float payload is the 64 bits of the double; nothing here looks
  inside it.
\<close>

datatype Field =
    Field_UInt64 UInt64
  | Field_Int64 Int64
  | Field_Float64 "64 word"
  | Field_String String

text \<open>
  Modelled from the spec: \<open>safeGet\<close> of Core/Field.h returns the payload when the
  interchange value has the requested shape and fails with the TypeMismatch kind
  otherwise.
\<close>

fun safeGet_UInt64 :: "Field \<Rightarrow> Exception + UInt64" where
  "safeGet_UInt64 (Field_UInt64 x) = Inr x"
| "safeGet_UInt64 _ = Inl (Exception ''Bad get: the interchange value is not an unsigned integer'' TYPE_MISMATCH)"

fun safeGet_String :: "Field \<Rightarrow> Exception + String" where
  "safeGet_String (Field_String s) = Inr s"
| "safeGet_String _ = Inl (Exception ''Bad get: the interchange value is not a string'' TYPE_MISMATCH)"

subsection \<open>The binary wire helpers\<close>

text \<open>
  A buffer is the list of its bytes, each a \<open>char\<close> as in the source's buffers.
  Modelled from the spec: \<open>writeVarUInt\<close> and \<open>readVarUInt\<close> (IO/VarInt.h is not among
  the sources) are the "variable-length unsigned integer" encoding: seven bits a byte,
  low bits first, the high bit of a byte set when another byte follows.
\<close>

function encodeVarUInt :: "nat \<Rightarrow> char list" where
  "encodeVarUInt n =
     (if n < 128 then [char_of n] else char_of (n mod 128 + 128) # encodeVarUInt (n div 128))"
  by pat_completeness auto
termination
  by (relation "measure (\<lambda>n. n)") auto

declare encodeVarUInt.simps [simp del]

fun decodeVarUInt :: "char list \<Rightarrow> (nat \<times> char list) option" where
  "decodeVarUInt [] = None"
| "decodeVarUInt (b # bs) =
     (if (of_char b :: nat) < 128 then Some (of_char b, bs)
      else (case decodeVarUInt bs of
              None \<Rightarrow> None
            | Some (hi, rest) \<Rightarrow> Some ((of_char b - 128) + 128 * hi, rest)))"

definition writeVarUInt :: "UInt64 \<Rightarrow> char list \<Rightarrow> char list" where
  "writeVarUInt x buf = buf @ encodeVarUInt (unat x)"

definition readVarUInt :: "char list \<Rightarrow> Exception + (UInt64 \<times> char list)" where
  "readVarUInt buf =
     (case decodeVarUInt buf of
        None \<Rightarrow> Inl (Exception ''Attempt to read after eof'' CANNOT_READ_ALL_DATA)
      | Some (n, rest) \<Rightarrow> Inr (of_nat n, rest))"

text \<open>
  Modelled from the spec: \<open>writeBinary\<close> and \<open>readBinary\<close> of a string
  (IO/WriteHelpers.h and IO/ReadHelpers.h are not among the sources) are the
  "length-prefixed byte string": the length as a variable-length unsigned integer, then
  the bytes.
\<close>

definition writeBinary :: "String \<Rightarrow> char list \<Rightarrow> char list" where
  "writeBinary s buf = writeVarUInt (of_nat (length s)) buf @ s"

definition readBinary :: "char list \<Rightarrow> Exception + (String \<times> char list)" where
  "readBinary buf =
     (case readVarUInt buf of
        Inl e \<Rightarrow> Inl e
      | Inr (n, rest) \<Rightarrow>
          (if unat n \<le> length rest then Inr (take (unat n) rest, drop (unat n) rest)
           else Inl (Exception ''Cannot read all data'' CANNOT_READ_ALL_DATA)))"

text \<open>
  Modelled from the spec: \<open>startsWith\<close> (Common/StringUtils is not among the sources)
  is the "leading-prefix match".
\<close>

definition startsWith :: "String \<Rightarrow> String \<Rightarrow> bool" where
  "startsWith s p = (take (length p) s = p)"

subsection \<open>The value cell\<close>

text \<open>
  The two fields every cell has, \<open>value\<close> and \<open>changed\<close>; the auto-sizing cell adds
  \<open>is_auto\<close>. A const member function only loads the cell: \<open>const_member f\<close> is the call
  of such a function \<open>f\<close> with the cell the caller finds afterwards.
\<close>

record 'a Data =
  "value" :: 'a
  changed :: bool

definition const_member :: "('c \<Rightarrow> 'r) \<Rightarrow> 'c \<Rightarrow> 'r \<times> 'c" where
  "const_member f c = (f c, c)"

subsection \<open>SettingMaxThreads\<close>

text \<open>
  \<open>struct Data { UInt64 value; bool is_auto; bool changed; }\<close>; the record lists
  \<open>is_auto\<close> last. \<open>getAutoValue()\<close> is the number of physical cores, computed once;
  it is the parameter \<open>av\<close> of every function that calls it.
\<close>

record SettingMaxThreads_Data = "UInt64 Data" +
  is_auto :: bool

definition getAutoValue :: "UInt64 \<Rightarrow> UInt64" where
  "getAutoValue av = av"

definition SettingMaxThreads_isChanged :: "SettingMaxThreads_Data \<Rightarrow> bool" where
  "SettingMaxThreads_isChanged d = changed d"

definition SettingMaxThreads_getValue :: "SettingMaxThreads_Data \<Rightarrow> UInt64" where
  "SettingMaxThreads_getValue d = value d"

text \<open>
  Modelled from the spec: the constructor (SettingsCommon.h is not among the sources)
  creates the cell as auto, with \<open>changed = false\<close>.
\<close>

definition SettingMaxThreads_init :: "UInt64 \<Rightarrow> SettingMaxThreads_Data" where
  "SettingMaxThreads_init av = \<lparr>value = getAutoValue av, changed = False, is_auto = True\<rparr>"

definition SettingMaxThreads_assign :: "SettingMaxThreads_Data \<Rightarrow> SettingMaxThreads_Data \<Rightarrow> SettingMaxThreads_Data" where
  "SettingMaxThreads_assign o' d = o'"

text \<open>\<open>toStr\<close> is \<open>DB::toString\<close> on UInt64, a helper outside the file.\<close>

definition SettingMaxThreads_toString :: "(UInt64 \<Rightarrow> String) \<Rightarrow> SettingMaxThreads_Data \<Rightarrow> String" where
  "SettingMaxThreads_toString toStr d =
     (if is_auto d then ''auto('' @ toStr (value d) @ '')'' else toStr (value d))"

definition SettingMaxThreads_toField :: "SettingMaxThreads_Data \<Rightarrow> Field" where
  "SettingMaxThreads_toField d = Field_UInt64 (if is_auto d then 0 else value d)"

definition SettingMaxThreads_set :: "UInt64 \<Rightarrow> UInt64 \<Rightarrow> SettingMaxThreads_Data \<Rightarrow> SettingMaxThreads_Data" where
  "SettingMaxThreads_set av x d =
     \<lparr>value = (if x \<noteq> 0 then x else getAutoValue av), changed = True, is_auto = (x = 0)\<rparr>"

definition SettingMaxThreads_setAuto :: "UInt64 \<Rightarrow> SettingMaxThreads_Data \<Rightarrow> SettingMaxThreads_Data" where
  "SettingMaxThreads_setAuto av d =
     \<lparr>value = getAutoValue av, changed = SettingMaxThreads_isChanged d, is_auto = True\<rparr>"

text \<open>\<open>parse\<close> is \<open>parse<UInt64>\<close>, a helper outside the file that can throw.\<close>

definition SettingMaxThreads_set_String ::
  "(String \<Rightarrow> Exception + UInt64) \<Rightarrow> UInt64 \<Rightarrow> String \<Rightarrow> SettingMaxThreads_Data \<Rightarrow> Exception + SettingMaxThreads_Data" where
  "SettingMaxThreads_set_String parse av x d =
     (if startsWith x ''auto'' then Inr (SettingMaxThreads_setAuto av d)
      else (case parse x of
              Inl e \<Rightarrow> Inl e
            | Inr n \<Rightarrow> Inr (SettingMaxThreads_set av n d)))"

definition SettingMaxThreads_set_Field ::
  "(String \<Rightarrow> Exception + UInt64) \<Rightarrow> UInt64 \<Rightarrow> Field \<Rightarrow> SettingMaxThreads_Data \<Rightarrow> Exception + SettingMaxThreads_Data" where
  "SettingMaxThreads_set_Field parse av x d =
     (case x of
        Field_String s \<Rightarrow> SettingMaxThreads_set_String parse av s d
      | _ \<Rightarrow> (case safeGet_UInt64 x of
                Inl e \<Rightarrow> Inl e
              | Inr n \<Rightarrow> Inr (SettingMaxThreads_set av n d)))"

definition SettingMaxThreads_serialize :: "SettingMaxThreads_Data \<Rightarrow> char list \<Rightarrow> char list" where
  "SettingMaxThreads_serialize d buf = writeVarUInt (if is_auto d then 0 else value d) buf"

definition SettingMaxThreads_deserialize ::
  "UInt64 \<Rightarrow> char list \<Rightarrow> SettingMaxThreads_Data \<Rightarrow> Exception + (SettingMaxThreads_Data \<times> char list)" where
  "SettingMaxThreads_deserialize av buf d =
     (case readVarUInt buf of
        Inl e \<Rightarrow> Inl e
      | Inr (x, rest) \<Rightarrow> Inr (SettingMaxThreads_set av x d, rest))"

definition SettingMaxThreads_setChanged :: "bool \<Rightarrow> SettingMaxThreads_Data \<Rightarrow> SettingMaxThreads_Data" where
  "SettingMaxThreads_setChanged c d = \<lparr>value = value d, changed = c, is_auto = is_auto d\<rparr>"

subsection \<open>SettingNumber\<close>

text \<open>
  \<open>SettingNumber<Type>\<close> for any \<open>Type\<close>; the cell holds \<open>{value, changed}\<close>.
  \<open>DB::toString\<close>, \<open>parse<Type>\<close>, the conversion of \<open>Type\<close> to an interchange
  value and \<open>FieldVisitorConvertToNumber<Type>\<close> are helpers outside the file: they
  are the parameters \<open>toStr\<close>, \<open>parse\<close>, \<open>toFld\<close> and \<open>convert\<close>.
  Modelled from the spec: the constructor (SettingsCommon.h is not among the sources)
  creates the cell with its default and \<open>changed = false\<close>.
\<close>

definition SettingNumber_init :: "'a \<Rightarrow> 'a Data" where
  "SettingNumber_init x = \<lparr>value = x, changed = False\<rparr>"

definition SettingNumber_getValue :: "'a Data \<Rightarrow> 'a" where
  "SettingNumber_getValue d = value d"

definition SettingNumber_toString :: "('a \<Rightarrow> String) \<Rightarrow> 'a Data \<Rightarrow> String" where
  "SettingNumber_toString toStr d = toStr (SettingNumber_getValue d)"

definition SettingNumber_toField :: "('a \<Rightarrow> Field) \<Rightarrow> 'a Data \<Rightarrow> Field" where
  "SettingNumber_toField toFld d = toFld (SettingNumber_getValue d)"

definition SettingNumber_set :: "'a \<Rightarrow> 'a Data \<Rightarrow> 'a Data" where
  "SettingNumber_set x d = \<lparr>value = x, changed = True\<rparr>"

definition SettingNumber_assign :: "'a Data \<Rightarrow> 'a Data \<Rightarrow> 'a Data" where
  "SettingNumber_assign o' d = o'"

definition SettingNumber_set_String ::
  "(String \<Rightarrow> Exception + 'a) \<Rightarrow> String \<Rightarrow> 'a Data \<Rightarrow> Exception + 'a Data" where
  "SettingNumber_set_String parse x d =
     (case parse x of
        Inl e \<Rightarrow> Inl e
      | Inr v \<Rightarrow> Inr (SettingNumber_set v d))"

text \<open>
  Modelled from the spec: \<open>checkStringCaseInsensitive\<close> (IO/ReadHelpers is not among
  the sources). The spec says that the string "is matched case-insensitively against the
  literal keywords": the check holds when what is left in the buffer is the keyword, the
  case of ASCII letters aside, and then the buffer is read to its end; a check that fails
  leaves the buffer as it was.
\<close>

definition toLowerASCII :: "char \<Rightarrow> char" where
  "toLowerASCII c =
     (let n = (of_char c :: nat) in if 65 \<le> n \<and> n \<le> 90 then char_of (n + 32) else c)"

definition checkStringCaseInsensitive :: "String \<Rightarrow> char list \<Rightarrow> bool \<times> char list" where
  "checkStringCaseInsensitive s buf =
     (if map toLowerASCII buf = map toLowerASCII s then (True, []) else (False, buf))"

definition cannot_parse_bool :: "String \<Rightarrow> Exception" where
  "cannot_parse_bool x =
     Exception (''Cannot parse bool from string '' @ [CHR 0x27] @ x @ [CHR 0x27]) CANNOT_PARSE_BOOL"

definition SettingNumber_bool_set_String :: "String \<Rightarrow> bool Data \<Rightarrow> Exception + bool Data" where
  "SettingNumber_bool_set_String x d =
     (if length x = 1 then
        (if x ! 0 = CHR ''0'' then Inr (SettingNumber_set False d)
         else if x ! 0 = CHR ''1'' then Inr (SettingNumber_set True d)
         else Inl (cannot_parse_bool x))
      else
        (case checkStringCaseInsensitive ''true'' x of
           (True, buf) \<Rightarrow> Inr (SettingNumber_set True d)
         | (False, buf) \<Rightarrow>
             (case checkStringCaseInsensitive ''false'' buf of
                (True, buf') \<Rightarrow> Inr (SettingNumber_set False d)
              | (False, buf') \<Rightarrow> Inl (cannot_parse_bool x))))"

text \<open>
  \<open>set(const Field &)\<close>: \<open>set_String\<close> is the instantiation's \<open>set(const String &)\<close>
  (the general one, or the specialization for bool).
\<close>

definition SettingNumber_set_Field ::
  "(String \<Rightarrow> 'a Data \<Rightarrow> Exception + 'a Data) \<Rightarrow> (Field \<Rightarrow> Exception + 'a)
   \<Rightarrow> Field \<Rightarrow> 'a Data \<Rightarrow> Exception + 'a Data" where
  "SettingNumber_set_Field set_String convert x d =
     (case x of
        Field_String s \<Rightarrow> set_String s d
      | _ \<Rightarrow> (case convert x of
                Inl e \<Rightarrow> Inl e
              | Inr v \<Rightarrow> Inr (SettingNumber_set v d)))"

text \<open>
  Modelled from the spec: \<open>writeVarInt\<close> and \<open>readVarInt\<close> (IO/VarInt.h is not among
  the sources) are the "variable-length signed (zig-zag or sign-extended) encoding";
  the zig-zag one is taken.
\<close>

definition writeVarInt :: "Int64 \<Rightarrow> char list \<Rightarrow> char list" where
  "writeVarInt x buf = writeVarUInt (push_bit 1 x XOR signed_drop_bit 63 x) buf"

definition readVarInt :: "char list \<Rightarrow> Exception + (Int64 \<times> char list)" where
  "readVarInt buf =
     (case readVarUInt buf of
        Inl e \<Rightarrow> Inl e
      | Inr (u, rest) \<Rightarrow> Inr (drop_bit 1 u XOR (- (u AND 1)), rest))"

text \<open>
  \<open>serialize\<close> and \<open>deserialize\<close> have one branch for each kind of \<open>Type\<close>
  (\<open>if constexpr\<close>): unsigned integral (UInt64 and bool, with the \<open>static_cast\<close>s
  \<open>to_u64\<close> and \<open>from_u64\<close>), signed integral (Int64), floating point.
\<close>

definition SettingNumber_serialize_unsigned :: "('a \<Rightarrow> UInt64) \<Rightarrow> 'a Data \<Rightarrow> char list \<Rightarrow> char list" where
  "SettingNumber_serialize_unsigned to_u64 d buf = writeVarUInt (to_u64 (SettingNumber_getValue d)) buf"

definition SettingNumber_serialize_signed :: "Int64 Data \<Rightarrow> char list \<Rightarrow> char list" where
  "SettingNumber_serialize_signed d buf = writeVarInt (SettingNumber_getValue d) buf"

definition SettingNumber_serialize_floating :: "('a \<Rightarrow> String) \<Rightarrow> 'a Data \<Rightarrow> char list \<Rightarrow> char list" where
  "SettingNumber_serialize_floating toStr d buf = writeBinary (SettingNumber_toString toStr d) buf"

definition SettingNumber_deserialize_unsigned ::
  "(UInt64 \<Rightarrow> 'a) \<Rightarrow> char list \<Rightarrow> 'a Data \<Rightarrow> Exception + ('a Data \<times> char list)" where
  "SettingNumber_deserialize_unsigned from_u64 buf d =
     (case readVarUInt buf of
        Inl e \<Rightarrow> Inl e
      | Inr (x, rest) \<Rightarrow> Inr (SettingNumber_set (from_u64 x) d, rest))"

definition SettingNumber_deserialize_signed ::
  "char list \<Rightarrow> Int64 Data \<Rightarrow> Exception + (Int64 Data \<times> char list)" where
  "SettingNumber_deserialize_signed buf d =
     (case readVarInt buf of
        Inl e \<Rightarrow> Inl e
      | Inr (x, rest) \<Rightarrow> Inr (SettingNumber_set x d, rest))"

definition SettingNumber_deserialize_floating ::
  "(String \<Rightarrow> Exception + 'a) \<Rightarrow> char list \<Rightarrow> 'a Data \<Rightarrow> Exception + ('a Data \<times> char list)" where
  "SettingNumber_deserialize_floating parse buf d =
     (case readBinary buf of
        Inl e \<Rightarrow> Inl e
      | Inr (x, rest) \<Rightarrow>
          (case SettingNumber_set_String parse x d of
             Inl e \<Rightarrow> Inl e
           | Inr d' \<Rightarrow> Inr (d', rest)))"


definition bool_of_UInt64 :: "UInt64 \<Rightarrow> bool" where
  "bool_of_UInt64 x = (x \<noteq> 0)"

subsection \<open>SettingTimespan\<close>

text \<open>
  \<open>Poco::Timespan\<close> holds a signed 64-bit count of microseconds; \<open>Poco_Timespan\<close> is
  its constructor from such a count and \<open>totalMicroseconds\<close> reads it back.
  Modelled from the spec: \<open>microseconds_per_io_unit\<close> (SettingsCommon.h is not among
  the sources) is the resolution's factor, "1,000,000 for seconds, 1,000 for
  milliseconds", an unsigned 64-bit constant; the constructor creates the cell with
  \<open>changed = false\<close>.
\<close>

datatype SettingTimespanIO = MILLISECOND | SECOND

type_synonym Timespan = Int64

definition Poco_Timespan :: "Int64 \<Rightarrow> Timespan" where
  "Poco_Timespan microseconds = microseconds"

definition totalMicroseconds :: "Timespan \<Rightarrow> Int64" where
  "totalMicroseconds t = t"

fun microseconds_per_io_unit :: "SettingTimespanIO \<Rightarrow> UInt64" where
  "microseconds_per_io_unit SECOND = 1000000"
| "microseconds_per_io_unit MILLISECOND = 1000"

definition SettingTimespan_init :: "Timespan \<Rightarrow> Timespan Data" where
  "SettingTimespan_init x = \<lparr>value = x, changed = False\<rparr>"

definition SettingTimespan_assign :: "Timespan Data \<Rightarrow> Timespan Data \<Rightarrow> Timespan Data" where
  "SettingTimespan_assign o' d = \<lparr>value = value o', changed = changed o'\<rparr>"

definition SettingTimespan_copy :: "Timespan Data \<Rightarrow> Timespan Data" where
  "SettingTimespan_copy o' = \<lparr>value = value o', changed = changed o'\<rparr>"

definition SettingTimespan_setChanged :: "bool \<Rightarrow> Timespan Data \<Rightarrow> Timespan Data" where
  "SettingTimespan_setChanged c d = d\<lparr>changed := c\<rparr>"

definition SettingTimespan_getValue :: "Timespan Data \<Rightarrow> Timespan" where
  "SettingTimespan_getValue d = value d"

text \<open>
  The quotient of the signed count by the unsigned factor is taken in unsigned 64-bit
  arithmetic; \<open>div\<close> on words is that division.
\<close>

definition SettingTimespan_toString :: "(UInt64 \<Rightarrow> String) \<Rightarrow> SettingTimespanIO \<Rightarrow> Timespan Data \<Rightarrow> String" where
  "SettingTimespan_toString toStr io_unit d =
     toStr (totalMicroseconds (SettingTimespan_getValue d) div microseconds_per_io_unit io_unit)"

definition SettingTimespan_toField :: "SettingTimespanIO \<Rightarrow> Timespan Data \<Rightarrow> Field" where
  "SettingTimespan_toField io_unit d =
     Field_UInt64 (totalMicroseconds (SettingTimespan_getValue d) div microseconds_per_io_unit io_unit)"

definition SettingTimespan_set_Timespan :: "Timespan \<Rightarrow> Timespan Data \<Rightarrow> Timespan Data" where
  "SettingTimespan_set_Timespan x d = d\<lparr>value := x, changed := True\<rparr>"

definition SettingTimespan_set :: "SettingTimespanIO \<Rightarrow> UInt64 \<Rightarrow> Timespan Data \<Rightarrow> Timespan Data" where
  "SettingTimespan_set io_unit x d =
     SettingTimespan_set_Timespan (Poco_Timespan (x * microseconds_per_io_unit io_unit)) d"

definition SettingTimespan_set_String ::
  "(String \<Rightarrow> Exception + UInt64) \<Rightarrow> SettingTimespanIO \<Rightarrow> String \<Rightarrow> Timespan Data \<Rightarrow> Exception + Timespan Data" where
  "SettingTimespan_set_String parse io_unit x d =
     (case parse x of
        Inl e \<Rightarrow> Inl e
      | Inr n \<Rightarrow> Inr (SettingTimespan_set io_unit n d))"

definition SettingTimespan_set_Field ::
  "(String \<Rightarrow> Exception + UInt64) \<Rightarrow> SettingTimespanIO \<Rightarrow> Field \<Rightarrow> Timespan Data \<Rightarrow> Exception + Timespan Data" where
  "SettingTimespan_set_Field parse io_unit x d =
     (case x of
        Field_String s \<Rightarrow> SettingTimespan_set_String parse io_unit s d
      | _ \<Rightarrow> (case safeGet_UInt64 x of
                Inl e \<Rightarrow> Inl e
              | Inr n \<Rightarrow> Inr (SettingTimespan_set io_unit n d)))"

definition SettingTimespan_serialize :: "SettingTimespanIO \<Rightarrow> Timespan Data \<Rightarrow> char list \<Rightarrow> char list" where
  "SettingTimespan_serialize io_unit d buf =
     writeVarUInt (totalMicroseconds (SettingTimespan_getValue d) div microseconds_per_io_unit io_unit) buf"

definition SettingTimespan_deserialize ::
  "SettingTimespanIO \<Rightarrow> char list \<Rightarrow> Timespan Data \<Rightarrow> Exception + (Timespan Data \<times> char list)" where
  "SettingTimespan_deserialize io_unit buf d =
     (case readVarUInt buf of
        Inl e \<Rightarrow> Inl e
      | Inr (x, rest) \<Rightarrow> Inr (SettingTimespan_set io_unit x d, rest))"

subsection \<open>SettingString\<close>

text \<open>
  Modelled from the spec: the constructor (SettingsCommon.h is not among the sources)
  creates the cell with its default and \<open>changed = false\<close>.
\<close>

definition SettingString_init :: "String \<Rightarrow> String Data" where
  "SettingString_init x = \<lparr>value = x, changed = False\<rparr>"

definition SettingString_assign :: "String Data \<Rightarrow> String Data \<Rightarrow> String Data" where
  "SettingString_assign o' d = \<lparr>value = value o', changed = changed o'\<rparr>"

definition SettingString_copy :: "String Data \<Rightarrow> String Data" where
  "SettingString_copy o' = \<lparr>value = value o', changed = changed o'\<rparr>"

definition SettingString_toString :: "String Data \<Rightarrow> String" where
  "SettingString_toString d = value d"

definition SettingString_toField :: "String Data \<Rightarrow> Field" where
  "SettingString_toField d = Field_String (value d)"

definition SettingString_set :: "String \<Rightarrow> String Data \<Rightarrow> String Data" where
  "SettingString_set x d = d\<lparr>value := x, changed := True\<rparr>"

definition SettingString_setChanged :: "bool \<Rightarrow> String Data \<Rightarrow> String Data" where
  "SettingString_setChanged c d = d\<lparr>changed := c\<rparr>"

definition SettingString_set_Field :: "Field \<Rightarrow> String Data \<Rightarrow> Exception + String Data" where
  "SettingString_set_Field x d =
     (case safeGet_String x of
        Inl e \<Rightarrow> Inl e
      | Inr s \<Rightarrow> Inr (SettingString_set s d))"

definition SettingString_serialize :: "String Data \<Rightarrow> char list \<Rightarrow> char list" where
  "SettingString_serialize d buf = writeBinary (value d) buf"

definition SettingString_deserialize :: "char list \<Rightarrow> String Data \<Rightarrow> Exception + (String Data \<times> char list)" where
  "SettingString_deserialize buf d =
     (case readBinary buf of
        Inl e \<Rightarrow> Inl e
      | Inr (s, rest) \<Rightarrow> Inr (SettingString_set s d, rest))"

subsection \<open>SettingChar\<close>

text \<open>
  Modelled from the spec: the constructor (SettingsCommon.h is not among the sources)
  creates the cell with its default and \<open>changed = false\<close>.
\<close>

definition SettingChar_init :: "char \<Rightarrow> char Data" where
  "SettingChar_init x = \<lparr>value = x, changed = False\<rparr>"

definition SettingChar_getValue :: "char Data \<Rightarrow> char" where
  "SettingChar_getValue d = value d"

definition SettingChar_assign :: "char Data \<Rightarrow> char Data \<Rightarrow> char Data" where
  "SettingChar_assign o' d = o'"

text \<open>\<open>String(1, c)\<close> is the string of one character \<open>c\<close>, whatever \<open>c\<close> is.\<close>

definition SettingChar_toString :: "char Data \<Rightarrow> String" where
  "SettingChar_toString d = replicate 1 (SettingChar_getValue d)"

definition SettingChar_toField :: "char Data \<Rightarrow> Field" where
  "SettingChar_toField d = Field_String (SettingChar_toString d)"

definition SettingChar_set :: "char \<Rightarrow> char Data \<Rightarrow> char Data" where
  "SettingChar_set x d = \<lparr>value = x, changed = True\<rparr>"

definition SettingChar_set_String :: "String \<Rightarrow> char Data \<Rightarrow> Exception + char Data" where
  "SettingChar_set_String x d =
     (if length x > 1 then
        Inl (Exception ''A setting's value string has to be an exactly one character long''
               SIZE_OF_FIXED_STRING_DOESNT_MATCH)
      else
        (let c = (if length x = 1 then x ! 0 else CHR 0x00) in Inr (SettingChar_set c d)))"

definition SettingChar_set_Field :: "Field \<Rightarrow> char Data \<Rightarrow> Exception + char Data" where
  "SettingChar_set_Field x d =
     (case safeGet_String x of
        Inl e \<Rightarrow> Inl e
      | Inr s \<Rightarrow> SettingChar_set_String s d)"

definition SettingChar_serialize :: "char Data \<Rightarrow> char list \<Rightarrow> char list" where
  "SettingChar_serialize d buf = writeBinary (SettingChar_toString d) buf"

definition SettingChar_deserialize :: "char list \<Rightarrow> char Data \<Rightarrow> Exception + (char Data \<times> char list)" where
  "SettingChar_deserialize buf d =
     (case readBinary buf of
        Inl e \<Rightarrow> Inl e
      | Inr (s, rest) \<Rightarrow>
          (case SettingChar_set_String s d of
             Inl e \<Rightarrow> Inl e
           | Inr d' \<Rightarrow> Inr (d', rest)))"

subsection \<open>SettingEnum\<close>

text \<open>
  \<open>IMPLEMENT_SETTING_ENUM_WITH_TAG(ENUM_NAME, TAG, LIST_OF_NAMES_MACRO,
  ERROR_CODE_FOR_UNEXPECTED_NAME)\<close> generates \<open>toString\<close> and \<open>set(const String &)\<close> of
  one instantiation. An instantiation is the record of the macro's arguments:
  \<open>ENUM_NAME\<close> as the preprocessor turns it into a string, the list of the
  \<open>M(NAME, IO_NAME)\<close> entries in their order, and the error code. The three helper
  macros are applied to the entries from first to last.
\<close>

record 'e SettingEnum_impl =
  ENUM_NAME :: String
  LIST_OF_NAMES :: "('e \<times> String) list"
  ERROR_CODE_FOR_UNEXPECTED_NAME :: ErrorCode

fun IMPLEMENT_SETTING_ENUM_TO_STRING_HELPER :: "('e \<times> String) list \<Rightarrow> 'e \<Rightarrow> String option" where
  "IMPLEMENT_SETTING_ENUM_TO_STRING_HELPER [] v = None"
| "IMPLEMENT_SETTING_ENUM_TO_STRING_HELPER ((NAME, IO_NAME) # rest) v =
     (if v = NAME then Some IO_NAME else IMPLEMENT_SETTING_ENUM_TO_STRING_HELPER rest v)"

fun IMPLEMENT_SETTING_ENUM_FROM_STRING_HELPER :: "('e \<times> String) list \<Rightarrow> String \<Rightarrow> 'e option" where
  "IMPLEMENT_SETTING_ENUM_FROM_STRING_HELPER [] s = None"
| "IMPLEMENT_SETTING_ENUM_FROM_STRING_HELPER ((NAME, IO_NAME) # rest) s =
     (if s = IO_NAME then Some NAME else IMPLEMENT_SETTING_ENUM_FROM_STRING_HELPER rest s)"

fun IMPLEMENT_SETTING_ENUM_CONCAT_NAMES_HELPER :: "('e \<times> String) list \<Rightarrow> String \<Rightarrow> String" where
  "IMPLEMENT_SETTING_ENUM_CONCAT_NAMES_HELPER [] all_io_names = all_io_names"
| "IMPLEMENT_SETTING_ENUM_CONCAT_NAMES_HELPER ((NAME, IO_NAME) # rest) all_io_names =
     IMPLEMENT_SETTING_ENUM_CONCAT_NAMES_HELPER rest
       ((if all_io_names \<noteq> [] then all_io_names @ '', '' else all_io_names)
        @ ([CHR 0x27] @ IO_NAME @ [CHR 0x27]))"

text \<open>
  Modelled from the spec: the constructor (SettingsCommon.h is not among the sources)
  creates the cell with its default and \<open>changed = false\<close>.
\<close>

definition SettingEnum_init :: "'e \<Rightarrow> 'e Data" where
  "SettingEnum_init x = \<lparr>value = x, changed = False\<rparr>"

definition SettingEnum_getValue :: "'e Data \<Rightarrow> 'e" where
  "SettingEnum_getValue d = value d"

definition SettingEnum_assign :: "'e Data \<Rightarrow> 'e Data \<Rightarrow> 'e Data" where
  "SettingEnum_assign o' d = o'"

definition SettingEnum_set :: "'e \<Rightarrow> 'e Data \<Rightarrow> 'e Data" where
  "SettingEnum_set x d = \<lparr>value = x, changed = True\<rparr>"

definition SettingEnum_toString :: "'e SettingEnum_impl \<Rightarrow> 'e Data \<Rightarrow> Exception + String" where
  "SettingEnum_toString I d =
     (case IMPLEMENT_SETTING_ENUM_TO_STRING_HELPER (LIST_OF_NAMES I) (SettingEnum_getValue d) of
        Some IO_NAME \<Rightarrow> Inr IO_NAME
      | None \<Rightarrow> Inl (Exception (''Unknown '' @ ENUM_NAME I) (ERROR_CODE_FOR_UNEXPECTED_NAME I)))"

definition SettingEnum_set_String :: "'e SettingEnum_impl \<Rightarrow> String \<Rightarrow> 'e Data \<Rightarrow> Exception + 'e Data" where
  "SettingEnum_set_String I s d =
     (case IMPLEMENT_SETTING_ENUM_FROM_STRING_HELPER (LIST_OF_NAMES I) s of
        Some NAME \<Rightarrow> Inr (SettingEnum_set NAME d)
      | None \<Rightarrow>
          (let all_io_names = IMPLEMENT_SETTING_ENUM_CONCAT_NAMES_HELPER (LIST_OF_NAMES I) [] in
           Inl (Exception
                  (''Unknown '' @ ENUM_NAME I @ '' : '' @ [CHR 0x27] @ s @ [CHR 0x27]
                   @ '', must be one of ''
                   @ all_io_names)
                  (ERROR_CODE_FOR_UNEXPECTED_NAME I))))"

definition SettingEnum_serialize :: "'e SettingEnum_impl \<Rightarrow> 'e Data \<Rightarrow> char list \<Rightarrow> Exception + char list" where
  "SettingEnum_serialize I d buf =
     (case SettingEnum_toString I d of
        Inl e \<Rightarrow> Inl e
      | Inr s \<Rightarrow> Inr (writeBinary s buf))"

definition SettingEnum_deserialize ::
  "'e SettingEnum_impl \<Rightarrow> char list \<Rightarrow> 'e Data \<Rightarrow> Exception + ('e Data \<times> char list)" where
  "SettingEnum_deserialize I buf d =
     (case readBinary buf of
        Inl e \<Rightarrow> Inl e
      | Inr (s, rest) \<Rightarrow>
          (case SettingEnum_set_String I s d of
             Inl e \<Rightarrow> Inl e
           | Inr d' \<Rightarrow> Inr (d', rest)))"

text \<open>
  The eight instantiations. A member \<open>EnumType::NAME\<close> is written \<open>EnumType_NAME\<close>;
  the members of each enumeration are those its name tables list.
\<close>

datatype LoadBalancing =
  LoadBalancing_RANDOM | LoadBalancing_NEAREST_HOSTNAME | LoadBalancing_IN_ORDER
  | LoadBalancing_FIRST_OR_RANDOM

datatype JoinStrictness = JoinStrictness_Unspecified | JoinStrictness_ALL | JoinStrictness_ANY

datatype TotalsMode =
  TotalsMode_BEFORE_HAVING | TotalsMode_AFTER_HAVING_EXCLUSIVE
  | TotalsMode_AFTER_HAVING_INCLUSIVE | TotalsMode_AFTER_HAVING_AUTO

datatype OverflowMode = OverflowMode_THROW | OverflowMode_BREAK | OverflowMode_ANY

datatype DistributedProductMode =
  DistributedProductMode_DENY | DistributedProductMode_LOCAL | DistributedProductMode_GLOBAL
  | DistributedProductMode_ALLOW

datatype DateTimeInputFormat = DateTimeInputFormat_Basic | DateTimeInputFormat_BestEffort

datatype LogsLevel =
  LogsLevel_none | LogsLevel_error | LogsLevel_warning | LogsLevel_information
  | LogsLevel_debug | LogsLevel_trace

definition LOAD_BALANCING_LIST_OF_NAMES :: "(LoadBalancing \<times> String) list" where
  "LOAD_BALANCING_LIST_OF_NAMES =
     [(LoadBalancing_RANDOM, ''random''),
      (LoadBalancing_NEAREST_HOSTNAME, ''nearest_hostname''),
      (LoadBalancing_IN_ORDER, ''in_order''),
      (LoadBalancing_FIRST_OR_RANDOM, ''first_or_random'')]"

definition JOIN_STRICTNESS_LIST_OF_NAMES :: "(JoinStrictness \<times> String) list" where
  "JOIN_STRICTNESS_LIST_OF_NAMES =
     [(JoinStrictness_Unspecified, ''''),
      (JoinStrictness_ALL, ''ALL''),
      (JoinStrictness_ANY, ''ANY'')]"

definition TOTALS_MODE_LIST_OF_NAMES :: "(TotalsMode \<times> String) list" where
  "TOTALS_MODE_LIST_OF_NAMES =
     [(TotalsMode_BEFORE_HAVING, ''before_having''),
      (TotalsMode_AFTER_HAVING_EXCLUSIVE, ''after_having_exclusive''),
      (TotalsMode_AFTER_HAVING_INCLUSIVE, ''after_having_inclusive''),
      (TotalsMode_AFTER_HAVING_AUTO, ''after_having_auto'')]"

definition OVERFLOW_MODE_LIST_OF_NAMES :: "(OverflowMode \<times> String) list" where
  "OVERFLOW_MODE_LIST_OF_NAMES =
     [(OverflowMode_THROW, ''throw''),
      (OverflowMode_BREAK, ''break'')]"

definition OVERFLOW_MODE_LIST_OF_NAMES_WITH_ANY :: "(OverflowMode \<times> String) list" where
  "OVERFLOW_MODE_LIST_OF_NAMES_WITH_ANY =
     [(OverflowMode_THROW, ''throw''),
      (OverflowMode_BREAK, ''break''),
      (OverflowMode_ANY, ''any'')]"

definition DISTRIBUTED_PRODUCT_MODE_LIST_OF_NAMES :: "(DistributedProductMode \<times> String) list" where
  "DISTRIBUTED_PRODUCT_MODE_LIST_OF_NAMES =
     [(DistributedProductMode_DENY, ''deny''),
      (DistributedProductMode_LOCAL, ''local''),
      (DistributedProductMode_GLOBAL, ''global''),
      (DistributedProductMode_ALLOW, ''allow'')]"

definition DATE_TIME_INPUT_FORMAT_LIST_OF_NAMES :: "(DateTimeInputFormat \<times> String) list" where
  "DATE_TIME_INPUT_FORMAT_LIST_OF_NAMES =
     [(DateTimeInputFormat_Basic, ''basic''),
      (DateTimeInputFormat_BestEffort, ''best_effort'')]"

definition LOGS_LEVEL_LIST_OF_NAMES :: "(LogsLevel \<times> String) list" where
  "LOGS_LEVEL_LIST_OF_NAMES =
     [(LogsLevel_none, ''none''),
      (LogsLevel_error, ''error''),
      (LogsLevel_warning, ''warning''),
      (LogsLevel_information, ''information''),
      (LogsLevel_debug, ''debug''),
      (LogsLevel_trace, ''trace'')]"

definition SettingLoadBalancing :: "LoadBalancing SettingEnum_impl" where
  "SettingLoadBalancing =
     \<lparr>ENUM_NAME = ''LoadBalancing'', LIST_OF_NAMES = LOAD_BALANCING_LIST_OF_NAMES,
      ERROR_CODE_FOR_UNEXPECTED_NAME = UNKNOWN_LOAD_BALANCING\<rparr>"

definition SettingJoinStrictness :: "JoinStrictness SettingEnum_impl" where
  "SettingJoinStrictness =
     \<lparr>ENUM_NAME = ''JoinStrictness'', LIST_OF_NAMES = JOIN_STRICTNESS_LIST_OF_NAMES,
      ERROR_CODE_FOR_UNEXPECTED_NAME = UNKNOWN_JOIN_STRICTNESS\<rparr>"

definition SettingTotalsMode :: "TotalsMode SettingEnum_impl" where
  "SettingTotalsMode =
     \<lparr>ENUM_NAME = ''TotalsMode'', LIST_OF_NAMES = TOTALS_MODE_LIST_OF_NAMES,
      ERROR_CODE_FOR_UNEXPECTED_NAME = UNKNOWN_TOTALS_MODE\<rparr>"

definition SettingOverflowMode :: "OverflowMode SettingEnum_impl" where
  "SettingOverflowMode =
     \<lparr>ENUM_NAME = ''OverflowMode'', LIST_OF_NAMES = OVERFLOW_MODE_LIST_OF_NAMES,
      ERROR_CODE_FOR_UNEXPECTED_NAME = UNKNOWN_OVERFLOW_MODE\<rparr>"

definition SettingOverflowModeGroupBy :: "OverflowMode SettingEnum_impl" where
  "SettingOverflowModeGroupBy =
     \<lparr>ENUM_NAME = ''OverflowMode'', LIST_OF_NAMES = OVERFLOW_MODE_LIST_OF_NAMES_WITH_ANY,
      ERROR_CODE_FOR_UNEXPECTED_NAME = UNKNOWN_OVERFLOW_MODE\<rparr>"

definition SettingDistributedProductMode :: "DistributedProductMode SettingEnum_impl" where
  "SettingDistributedProductMode =
     \<lparr>ENUM_NAME = ''DistributedProductMode'', LIST_OF_NAMES = DISTRIBUTED_PRODUCT_MODE_LIST_OF_NAMES,
      ERROR_CODE_FOR_UNEXPECTED_NAME = UNKNOWN_DISTRIBUTED_PRODUCT_MODE\<rparr>"

definition SettingDateTimeInputFormat :: "DateTimeInputFormat SettingEnum_impl" where
  "SettingDateTimeInputFormat =
     \<lparr>ENUM_NAME = ''FormatSettings::DateTimeInputFormat'',
      LIST_OF_NAMES = DATE_TIME_INPUT_FORMAT_LIST_OF_NAMES,
      ERROR_CODE_FOR_UNEXPECTED_NAME = BAD_ARGUMENTS\<rparr>"

definition SettingLogsLevel :: "LogsLevel SettingEnum_impl" where
  "SettingLogsLevel =
     \<lparr>ENUM_NAME = ''LogsLevel'', LIST_OF_NAMES = LOGS_LEVEL_LIST_OF_NAMES,
      ERROR_CODE_FOR_UNEXPECTED_NAME = BAD_ARGUMENTS\<rparr>"

subsection \<open>The cells a SettingMaxThreads can hold\<close>

text \<open>
  The cells a program can reach: the constructed one, and what the storing member
  functions make of a reachable cell (\<open>operator=\<close> copies another reachable cell).
\<close>

inductive reachable :: "UInt64 \<Rightarrow> SettingMaxThreads_Data \<Rightarrow> bool" for av :: UInt64 where
  reachable_init: "reachable av (SettingMaxThreads_init av)"
| reachable_set: "reachable av d \<Longrightarrow> reachable av (SettingMaxThreads_set av x d)"
| reachable_setAuto: "reachable av d \<Longrightarrow> reachable av (SettingMaxThreads_setAuto av d)"
| reachable_setChanged: "reachable av d \<Longrightarrow> reachable av (SettingMaxThreads_setChanged c d)"
| reachable_set_String:
    "reachable av d \<Longrightarrow> SettingMaxThreads_set_String parse av s d = Inr d' \<Longrightarrow> reachable av d'"
| reachable_set_Field:
    "reachable av d \<Longrightarrow> SettingMaxThreads_set_Field parse av x d = Inr d' \<Longrightarrow> reachable av d'"
| reachable_deserialize:
    "reachable av d \<Longrightarrow> SettingMaxThreads_deserialize av buf d = Inr (d', rest) \<Longrightarrow> reachable av d'"
| reachable_assign:
    "reachable av d \<Longrightarrow> reachable av o' \<Longrightarrow> reachable av (SettingMaxThreads_assign o' d)"

subsection \<open>The lock discipline of SettingString and SettingTimespan\<close>

text \<open>
  What a member function of the lock-based family does with the mutexes and the fields,
  in the order of its body: taking a \<open>std::shared_lock\<close> or a \<open>std::unique_lock\<close> on
  the mutex of an object (\<open>this\<close>, or the source \<open>o\<close> of a copy), reading or writing
  a field of an object. A guard is held to the end of the body.
\<close>

datatype object = This | Other

datatype member = Value_field | Changed_field

datatype action =
    Shared_lock object
  | Unique_lock object
  | Read object member
  | Write object member

datatype lock_mode = Unlocked | Shared | Exclusive

definition SettingTimespan_assign_body :: "action list" where
  "SettingTimespan_assign_body =
     [Shared_lock Other, Read Other Value_field, Write This Value_field,
      Read Other Changed_field, Write This Changed_field]"

definition SettingTimespan_copy_body :: "action list" where
  "SettingTimespan_copy_body =
     [Shared_lock Other, Read Other Value_field, Write This Value_field,
      Read Other Changed_field, Write This Changed_field]"

definition SettingTimespan_setChanged_body :: "action list" where
  "SettingTimespan_setChanged_body = [Unique_lock This, Write This Changed_field]"

definition SettingTimespan_set_Timespan_body :: "action list" where
  "SettingTimespan_set_Timespan_body =
     [Unique_lock This, Write This Value_field, Write This Changed_field]"

definition SettingString_assign_body :: "action list" where
  "SettingString_assign_body =
     [Shared_lock Other, Read Other Value_field, Write This Value_field,
      Read Other Changed_field, Write This Changed_field]"

definition SettingString_copy_body :: "action list" where
  "SettingString_copy_body =
     [Shared_lock Other, Read Other Value_field, Write This Value_field,
      Read Other Changed_field, Write This Changed_field]"

definition SettingString_toString_body :: "action list" where
  "SettingString_toString_body = [Shared_lock This, Read This Value_field]"

definition SettingString_toField_body :: "action list" where
  "SettingString_toField_body = [Shared_lock This, Read This Value_field]"

definition SettingString_set_body :: "action list" where
  "SettingString_set_body = [Unique_lock This, Write This Value_field, Write This Changed_field]"

definition SettingString_setChanged_body :: "action list" where
  "SettingString_setChanged_body = [Unique_lock This, Write This Changed_field]"

definition SettingString_serialize_body :: "action list" where
  "SettingString_serialize_body = [Read This Value_field]"

text \<open>
  \<open>reads_locked held body\<close>: every read of a field in \<open>body\<close> happens while the
  mutex of the object read is held, in either mode; \<open>held\<close> is the mode in which each
  mutex is held when the body starts.
\<close>

fun reads_locked :: "(object \<Rightarrow> lock_mode) \<Rightarrow> action list \<Rightarrow> bool" where
  "reads_locked held [] = True"
| "reads_locked held (Shared_lock x # body) = reads_locked (held(x := Shared)) body"
| "reads_locked held (Unique_lock x # body) = reads_locked (held(x := Exclusive)) body"
| "reads_locked held (Read x m # body) = (held x \<noteq> Unlocked \<and> reads_locked held body)"
| "reads_locked held (Write x m # body) = reads_locked held body"

text \<open>
  \<open>writes_locked held body\<close>: every write of a field in \<open>body\<close> happens while the
  mutex of the object written is held in exclusive mode.
\<close>

fun writes_locked :: "(object \<Rightarrow> lock_mode) \<Rightarrow> action list \<Rightarrow> bool" where
  "writes_locked held [] = True"
| "writes_locked held (Shared_lock x # body) = writes_locked (held(x := Shared)) body"
| "writes_locked held (Unique_lock x # body) = writes_locked (held(x := Exclusive)) body"
| "writes_locked held (Read x m # body) = writes_locked held body"
| "writes_locked held (Write x m # body) = (held x = Exclusive \<and> writes_locked held body)"

subsection \<open>The enum properties, as definitions\<close>

text \<open>
  The list of keywords of an error message in the words of the spec: every keyword in
  quotes, the quoted keywords joined by a comma and a space.
\<close>

definition spec_quoted :: "String \<Rightarrow> String" where
  "spec_quoted k = [CHR 0x27] @ k @ [CHR 0x27]"

fun spec_joined :: "String \<Rightarrow> String list \<Rightarrow> String" where
  "spec_joined sep [] = []"
| "spec_joined sep [x] = x"
| "spec_joined sep (x # y # ys) = x @ sep @ spec_joined sep (y # ys)"

text \<open>
  An instantiation round-trips when, for every entry \<open>M(NAME, IO_NAME)\<close> of its name
  table: \<open>toString\<close> of a cell that holds \<open>NAME\<close> is \<open>IO_NAME\<close>; \<open>set\<close> of that
  string stores \<open>NAME\<close>; \<open>serialize\<close> writes \<open>IO_NAME\<close> as a length-prefixed string;
  and \<open>deserialize\<close> of these bytes stores \<open>NAME\<close> and leaves what follows them.
\<close>

definition SettingEnum_round_trips :: "'e SettingEnum_impl \<Rightarrow> bool" where
  "SettingEnum_round_trips I =
     (\<forall>(NAME, IO_NAME) \<in> set (LIST_OF_NAMES I). \<forall>c d rest.
        SettingEnum_toString I \<lparr>value = NAME, changed = c\<rparr> = Inr IO_NAME
        \<and> SettingEnum_set_String I IO_NAME d = Inr \<lparr>value = NAME, changed = True\<rparr>
        \<and> SettingEnum_serialize I \<lparr>value = NAME, changed = c\<rparr> [] = Inr (writeBinary IO_NAME [])
        \<and> SettingEnum_deserialize I (writeBinary IO_NAME [] @ rest) d
            = Inr (\<lparr>value = NAME, changed = True\<rparr>, rest))"

section \<open>Theorems\<close>

subsection \<open>The wire helpers invert each other\<close>

lemma decode_encodeVarUInt: "decodeVarUInt (encodeVarUInt n @ rest) = Some (n, rest)"
proof (induction n rule: encodeVarUInt.induct)
  case (1 n)
  show ?case
  proof (cases "n < 128")
    case True
    then show ?thesis by (subst encodeVarUInt.simps) simp
  next
    case False
    have m: "(n mod 128 + 128) mod 256 = n mod 128 + 128"
      by (rule mod_less) (simp add: less_le_trans [OF add_strict_right_mono [OF mod_less_divisor]])
    from False 1 have ih: "decodeVarUInt (encodeVarUInt (n div 128) @ rest) = Some (n div 128, rest)"
      by simp
    from False show ?thesis
      by (subst encodeVarUInt.simps) (simp add: m ih)
  qed
qed

lemma readVarUInt_writeVarUInt: "readVarUInt (writeVarUInt x [] @ rest) = Inr (x, rest)"
  by (simp add: readVarUInt_def writeVarUInt_def decode_encodeVarUInt)

subsection \<open>SettingMaxThreads::setChanged\<close>

text \<open>
  C10. \<open>SettingMaxThreads::setChanged(c)\<close> modifies only the changed flag: for every
  prior cell and every boolean \<open>c\<close>, \<open>value\<close> and \<open>is_auto\<close> after the call are what
  they were before it, and the changed flag is \<open>c\<close>.
\<close>

theorem SettingMaxThreads_setChanged_frame:
  "value (SettingMaxThreads_setChanged c d) = value d
   \<and> is_auto (SettingMaxThreads_setChanged c d) = is_auto d
   \<and> changed (SettingMaxThreads_setChanged c d) = c"
  by (simp add: SettingMaxThreads_setChanged_def)

subsection \<open>SettingMaxThreads: Auto and Explicit\<close>

lemma reachable_invariant:
  "reachable av d \<Longrightarrow> (is_auto d \<longrightarrow> value d = av) \<and> (\<not> is_auto d \<longrightarrow> value d \<noteq> 0)"
proof (induction rule: reachable.induct)
  case reachable_init
  show ?case by (simp add: SettingMaxThreads_init_def getAutoValue_def)
next
  case (reachable_set d x)
  show ?case by (simp add: SettingMaxThreads_set_def getAutoValue_def)
next
  case (reachable_setAuto d)
  show ?case by (simp add: SettingMaxThreads_setAuto_def getAutoValue_def)
next
  case (reachable_setChanged d c)
  then show ?case by (simp add: SettingMaxThreads_setChanged_def)
next
  case (reachable_set_String d parse s d')
  then show ?case
    by (auto simp: SettingMaxThreads_set_String_def SettingMaxThreads_set_def
        SettingMaxThreads_setAuto_def getAutoValue_def split: if_splits sum.splits)
next
  case (reachable_set_Field d parse x d')
  then show ?case
    by (auto simp: SettingMaxThreads_set_Field_def SettingMaxThreads_set_String_def
        SettingMaxThreads_set_def SettingMaxThreads_setAuto_def getAutoValue_def
        split: if_splits sum.splits Field.splits)
next
  case (reachable_deserialize d buf d' rest)
  then show ?case
    by (auto simp: SettingMaxThreads_deserialize_def SettingMaxThreads_set_def getAutoValue_def
        split: sum.splits)
next
  case (reachable_assign d o')
  then show ?case by (simp add: SettingMaxThreads_assign_def)
qed

text \<open>
  C3. For the auto-sizing (max-threads) setting: \<open>set(0)\<close> puts the cell in the Auto
  state with the cached auto value in \<open>value\<close> (so \<open>get()\<close> returns it); \<open>set(n)\<close>
  for \<open>n > 0\<close> puts it in the Explicit state with value \<open>n\<close>; \<open>toField()\<close> returns
  0 in Auto and the explicit value otherwise; \<open>serialize\<close> writes 0 in Auto and the
  explicit value otherwise. So, for every reachable cell, \<open>set\<close> of what \<open>toField()\<close>
  returns, and \<open>deserialize\<close> of what \<open>serialize\<close> wrote, each store the same
  \<open>value\<close> and the same Auto or Explicit state (with \<open>changed\<close> set).
\<close>

theorem SettingMaxThreads_auto_explicit:
  "SettingMaxThreads_set av 0 d = \<lparr>value = av, changed = True, is_auto = True\<rparr>
   \<and> SettingMaxThreads_getValue (SettingMaxThreads_set av 0 d) = av
   \<and> (n \<noteq> 0 \<longrightarrow> SettingMaxThreads_set av n d = \<lparr>value = n, changed = True, is_auto = False\<rparr>)
   \<and> SettingMaxThreads_toField d = Field_UInt64 (if is_auto d then 0 else value d)
   \<and> SettingMaxThreads_serialize d buf = writeVarUInt (if is_auto d then 0 else value d) buf
   \<and> (reachable av d \<longrightarrow>
        SettingMaxThreads_set_Field parse av (SettingMaxThreads_toField d) d0
          = Inr \<lparr>value = value d, changed = True, is_auto = is_auto d\<rparr>)
   \<and> (reachable av d \<longrightarrow>
        SettingMaxThreads_deserialize av (SettingMaxThreads_serialize d [] @ rest) d0
          = Inr (\<lparr>value = value d, changed = True, is_auto = is_auto d\<rparr>, rest))"
proof -
  have field: "SettingMaxThreads_set_Field parse av (SettingMaxThreads_toField d) d0
      = Inr \<lparr>value = value d, changed = True, is_auto = is_auto d\<rparr>" if "reachable av d"
    using reachable_invariant [OF that]
    by (simp add: SettingMaxThreads_set_Field_def SettingMaxThreads_toField_def
        SettingMaxThreads_set_def getAutoValue_def)
  have wire: "SettingMaxThreads_deserialize av (SettingMaxThreads_serialize d [] @ rest) d0
      = Inr (\<lparr>value = value d, changed = True, is_auto = is_auto d\<rparr>, rest)" if "reachable av d"
    using reachable_invariant [OF that]
    by (simp add: SettingMaxThreads_deserialize_def SettingMaxThreads_serialize_def
        readVarUInt_writeVarUInt SettingMaxThreads_set_def getAutoValue_def)
  show ?thesis
    using field wire
    by (simp add: SettingMaxThreads_set_def SettingMaxThreads_getValue_def getAutoValue_def
        SettingMaxThreads_toField_def SettingMaxThreads_serialize_def)
qed

theorem SettingMaxThreads_auto_explicit_witness:
  "SettingMaxThreads_set 8 5 (SettingMaxThreads_init 8) = \<lparr>value = 5, changed = True, is_auto = False\<rparr>
   \<and> reachable 8 (SettingMaxThreads_set 8 5 (SettingMaxThreads_init 8))
   \<and> SettingMaxThreads_set_Field (\<lambda>s. Inr 1) 8
        (SettingMaxThreads_toField (SettingMaxThreads_set 8 5 (SettingMaxThreads_init 8)))
        (SettingMaxThreads_init 8)
      = Inr \<lparr>value = 5, changed = True, is_auto = False\<rparr>
   \<and> SettingMaxThreads_deserialize 8
        (SettingMaxThreads_serialize (SettingMaxThreads_set 8 0 (SettingMaxThreads_init 8)) [] @ ''xyz'')
        (SettingMaxThreads_set 8 5 (SettingMaxThreads_init 8))
      = Inr (\<lparr>value = 8, changed = True, is_auto = True\<rparr>, ''xyz'')"
proof -
  let ?i = "SettingMaxThreads_init 8"
  let ?d5 = "SettingMaxThreads_set 8 5 ?i"
  let ?d0 = "SettingMaxThreads_set 8 0 ?i"
  have r5: "reachable 8 ?d5"
    by (rule reachable_set [OF reachable_init])
  have r0: "reachable 8 ?d0"
    by (rule reachable_set [OF reachable_init])
  have five: "(5 :: UInt64) \<noteq> 0" by simp
  from five SettingMaxThreads_auto_explicit [of 8 ?i 5 "[]" "\<lambda>s. Inr 1" ?i "[]"]
  have a: "?d5 = \<lparr>value = 5, changed = True, is_auto = False\<rparr>"
    by blast
  from r5 SettingMaxThreads_auto_explicit [of 8 ?d5 5 "[]" "\<lambda>s. Inr 1" ?i "[]"]
  have "SettingMaxThreads_set_Field (\<lambda>s. Inr 1) 8 (SettingMaxThreads_toField ?d5) ?i
      = Inr \<lparr>value = value ?d5, changed = True, is_auto = is_auto ?d5\<rparr>"
    by blast
  then have b: "SettingMaxThreads_set_Field (\<lambda>s. Inr 1) 8 (SettingMaxThreads_toField ?d5) ?i
      = Inr \<lparr>value = 5, changed = True, is_auto = False\<rparr>"
    by (simp add: a)
  from r0 SettingMaxThreads_auto_explicit [of 8 ?d0 5 "[]" "\<lambda>s. Inr 1" ?d5 "''xyz''"]
  have "SettingMaxThreads_deserialize 8 (SettingMaxThreads_serialize ?d0 [] @ ''xyz'') ?d5
      = Inr (\<lparr>value = value ?d0, changed = True, is_auto = is_auto ?d0\<rparr>, ''xyz'')"
    by blast
  moreover have "value ?d0 = 8 \<and> is_auto ?d0"
    by (simp add: SettingMaxThreads_set_def getAutoValue_def)
  ultimately have c: "SettingMaxThreads_deserialize 8 (SettingMaxThreads_serialize ?d0 [] @ ''xyz'') ?d5
      = Inr (\<lparr>value = 8, changed = True, is_auto = True\<rparr>, ''xyz'')"
    by simp
  from a r5 b c show ?thesis by blast
qed

subsection \<open>SettingTimespan: what set(UInt64) stores and the reads report\<close>

lemma timespan_div:
  assumes "unat n * unat (microseconds_per_io_unit io) < 2 ^ 64"
  shows "(n * microseconds_per_io_unit io) div microseconds_per_io_unit io = n"
proof -
  have pos: "0 < unat (microseconds_per_io_unit io)" by (cases io) simp_all
  have "unat (n * microseconds_per_io_unit io) = unat n * unat (microseconds_per_io_unit io)"
    using assms by (simp add: unat_word_ariths)
  then have "unat ((n * microseconds_per_io_unit io) div microseconds_per_io_unit io) = unat n"
    using pos by (simp add: unat_div)
  then show ?thesis by (simp add: word_unat_eq_iff)
qed

lemma sint_small: "unat (w :: 64 word) < 2 ^ 63 \<Longrightarrow> sint w = int (unat w)"
proof -
  assume a: "unat w < 2 ^ 63"
  have "int (unat w) < int (2 ^ 63)" using a by (rule iffD2 [OF of_nat_less_iff])
  then have b: "uint w < 2 ^ 63" by (simp only: uint_nat of_nat_power of_nat_numeral)
  have c: "- (2 ^ 63) \<le> uint w"
    by (rule order_trans [of _ 0]) simp_all
  have s: "signed_take_bit 63 (uint w) = uint w"
    using c b by (rule signed_take_bit_int_eq_self)
  have L: "LENGTH(64) - Suc 0 = 63" by simp
  have "sint w = signed_take_bit 63 (uint w)" by (simp only: sint_uint L)
  also have "\<dots> = uint w" by (rule s)
  also have "\<dots> = int (unat w)" by (rule uint_nat)
  finally show ?thesis .
qed

lemma timespan_sint:
  assumes "unat n * unat (microseconds_per_io_unit io) < 2 ^ 63"
  shows "sint (n * microseconds_per_io_unit io) = int (unat n) * int (unat (microseconds_per_io_unit io))"
proof -
  let ?f = "microseconds_per_io_unit io"
  have "unat n * unat ?f < 2 ^ 64"
    by (rule less_trans [OF assms]) simp
  then have u: "unat (n * ?f) = unat n * unat ?f"
    by (simp add: unat_word_ariths)
  then have "unat (n * ?f) < 2 ^ 63" using assms by simp
  then have "sint (n * ?f) = int (unat (n * ?f))" by (rule sint_small)
  then show ?thesis by (simp only: u of_nat_mult)
qed

lemma timespan_div_overflow:
  assumes "2 ^ 64 \<le> unat n * unat (microseconds_per_io_unit io)"
  shows "(n * microseconds_per_io_unit io) div microseconds_per_io_unit io \<noteq> n"
proof
  let ?f = "microseconds_per_io_unit io"
  assume eq: "(n * ?f) div ?f = n"
  have pos: "0 < unat ?f" by (cases io) simp_all
  have small: "unat ?f < 2 ^ 64" by (cases io) simp_all
  have m: "unat (n * ?f) = (unat n * unat ?f) mod 2 ^ 64"
    by (simp add: unat_word_ariths)
  have "unat ((n * ?f) div ?f) = ((unat n * unat ?f) mod 2 ^ 64) div unat ?f"
    by (simp add: unat_div m)
  with eq have e: "((unat n * unat ?f) mod 2 ^ 64) div unat ?f = unat n" by simp
  have "(unat n * unat ?f) mod 2 ^ 64 \<le> unat n * unat ?f - 2 ^ 64"
    using assms le_mod_geq [of "2 ^ 64" "unat n * unat ?f"]
      mod_less_eq_dividend [of "unat n * unat ?f - 2 ^ 64" "2 ^ 64"] by simp
  also have "\<dots> < unat n * unat ?f - unat ?f + 1" using small assms by simp
  finally have lt: "(unat n * unat ?f) mod 2 ^ 64 < unat n * unat ?f" using assms by simp
  have "unat n * unat ?f \<le> ((unat n * unat ?f) mod 2 ^ 64)"
  proof -
    have "unat n * unat ?f \<le> (((unat n * unat ?f) mod 2 ^ 64) div unat ?f) * unat ?f"
      using e by simp
    also have "\<dots> \<le> (unat n * unat ?f) mod 2 ^ 64" by simp
    finally show ?thesis .
  qed
  with lt show False by simp
qed

lemma encodeVarUInt_inject: "encodeVarUInt a = encodeVarUInt b \<Longrightarrow> a = b"
proof -
  assume e: "encodeVarUInt a = encodeVarUInt b"
  have "decodeVarUInt (encodeVarUInt a @ []) = Some (a, [])"
    by (rule decode_encodeVarUInt)
  moreover have "decodeVarUInt (encodeVarUInt b @ []) = Some (b, [])"
    by (rule decode_encodeVarUInt)
  ultimately show "a = b" using e by simp
qed

lemma writeVarUInt_inject: "writeVarUInt m buf = writeVarUInt n buf \<Longrightarrow> m = n"
  by (auto simp: writeVarUInt_def word_unat_eq_iff dest: encodeVarUInt_inject)

text \<open>
  C8, as amended. For each timed-duration setting (second and millisecond resolution)
  and every unsigned 64-bit \<open>n\<close>, \<open>set(n)\<close> stores the 64-bit product of \<open>n\<close> and
  the resolution's microsecond factor and sets \<open>changed\<close>. When \<open>n\<close> times the factor
  is below \<open>2^63\<close>, the stored duration is that many microseconds. When it is below
  \<open>2^64\<close>, \<open>toText()\<close>, \<open>toField()\<close> and \<open>serialize\<close> afterwards all report exactly
  \<open>n\<close>. When it is not, the product has wrapped around: all three report the wrapped
  product divided by the factor, which is not \<open>n\<close>, so \<open>toField()\<close> and \<open>serialize\<close>
  do not report \<open>n\<close>, and neither does \<open>toText()\<close> when different numbers have
  different texts.
\<close>

theorem SettingTimespan_set_reports:
  "value (SettingTimespan_set io n d) = Poco_Timespan (n * microseconds_per_io_unit io)
   \<and> changed (SettingTimespan_set io n d)
   \<and> (unat n * unat (microseconds_per_io_unit io) < 2 ^ 63 \<longrightarrow>
        sint (totalMicroseconds (SettingTimespan_getValue (SettingTimespan_set io n d)))
          = int (unat n) * int (unat (microseconds_per_io_unit io)))
   \<and> (unat n * unat (microseconds_per_io_unit io) < 2 ^ 64 \<longrightarrow>
        SettingTimespan_toString toStr io (SettingTimespan_set io n d) = toStr n
        \<and> SettingTimespan_toField io (SettingTimespan_set io n d) = Field_UInt64 n
        \<and> SettingTimespan_serialize io (SettingTimespan_set io n d) buf = writeVarUInt n buf)
   \<and> (2 ^ 64 \<le> unat n * unat (microseconds_per_io_unit io) \<longrightarrow>
        SettingTimespan_toField io (SettingTimespan_set io n d) \<noteq> Field_UInt64 n)
   \<and> (2 ^ 64 \<le> unat n * unat (microseconds_per_io_unit io) \<longrightarrow>
        (n * microseconds_per_io_unit io) div microseconds_per_io_unit io \<noteq> n
        \<and> SettingTimespan_toString toStr io (SettingTimespan_set io n d)
            = toStr ((n * microseconds_per_io_unit io) div microseconds_per_io_unit io)
        \<and> SettingTimespan_toField io (SettingTimespan_set io n d)
            = Field_UInt64 ((n * microseconds_per_io_unit io) div microseconds_per_io_unit io)
        \<and> SettingTimespan_serialize io (SettingTimespan_set io n d) buf
            = writeVarUInt ((n * microseconds_per_io_unit io) div microseconds_per_io_unit io) buf
        \<and> SettingTimespan_serialize io (SettingTimespan_set io n d) buf \<noteq> writeVarUInt n buf
        \<and> (inj toStr \<longrightarrow> SettingTimespan_toString toStr io (SettingTimespan_set io n d) \<noteq> toStr n))"
proof -
  let ?q = "(n * microseconds_per_io_unit io) div microseconds_per_io_unit io"
  have w: "writeVarUInt ?q buf \<noteq> writeVarUInt n buf" if "?q \<noteq> n"
    using that writeVarUInt_inject by blast
  have t: "toStr ?q \<noteq> toStr n" if "?q \<noteq> n" "inj toStr"
    using that by (simp add: inj_eq)
  show ?thesis
    using timespan_div [of n io] timespan_sint [of n io] timespan_div_overflow [of n io] w t
    by (simp add: SettingTimespan_set_def SettingTimespan_set_Timespan_def Poco_Timespan_def
        totalMicroseconds_def SettingTimespan_getValue_def SettingTimespan_toString_def
        SettingTimespan_toField_def SettingTimespan_serialize_def)
qed

theorem SettingTimespan_set_reports_witness:
  "SettingTimespan_toField SECOND (SettingTimespan_set SECOND 30 (SettingTimespan_init 0)) = Field_UInt64 30
   \<and> value (SettingTimespan_set SECOND 30 (SettingTimespan_init 0)) = 30000000
   \<and> sint (totalMicroseconds (SettingTimespan_getValue (SettingTimespan_set SECOND 30 (SettingTimespan_init 0)))) = 30000000
   \<and> SettingTimespan_toField MILLISECOND
        (SettingTimespan_set MILLISECOND 0xFFFFFFFFFFFFFFFF (SettingTimespan_init 0))
       \<noteq> Field_UInt64 0xFFFFFFFFFFFFFFFF
   \<and> SettingTimespan_serialize MILLISECOND
        (SettingTimespan_set MILLISECOND 0xFFFFFFFFFFFFFFFF (SettingTimespan_init 0)) []
       \<noteq> writeVarUInt 0xFFFFFFFFFFFFFFFF []
   \<and> SettingTimespan_toString (\<lambda>x. replicate (unat x) (CHR ''I'')) MILLISECOND
        (SettingTimespan_set MILLISECOND 0xFFFFFFFFFFFFFFFF (SettingTimespan_init 0))
       \<noteq> replicate (unat (0xFFFFFFFFFFFFFFFF :: UInt64)) (CHR ''I'')"
proof -
  let ?tally = "\<lambda>x :: UInt64. replicate (unat x) (CHR ''I'')"
  have a: "unat (30 :: UInt64) * unat (microseconds_per_io_unit SECOND) < 2 ^ 63" by simp
  have b: "unat (30 :: UInt64) * unat (microseconds_per_io_unit SECOND) < 2 ^ 64" by simp
  have c: "2 ^ 64 \<le> unat (0xFFFFFFFFFFFFFFFF :: UInt64) * unat (microseconds_per_io_unit MILLISECOND)" by simp
  have i: "inj ?tally"
  proof (rule injI)
    fix x y :: UInt64
    assume "replicate (unat x) (CHR ''I'') = replicate (unat y) (CHR ''I'')"
    then have "length (replicate (unat x) (CHR ''I'')) = length (replicate (unat y) (CHR ''I''))"
      by (rule arg_cong)
    then show "x = y" by (simp add: word_unat_eq_iff)
  qed
  from a b SettingTimespan_set_reports [of SECOND 30 "SettingTimespan_init 0" ?tally "[]"]
  have "SettingTimespan_toField SECOND (SettingTimespan_set SECOND 30 (SettingTimespan_init 0)) = Field_UInt64 30
     \<and> value (SettingTimespan_set SECOND 30 (SettingTimespan_init 0)) = 30000000
     \<and> sint (totalMicroseconds (SettingTimespan_getValue (SettingTimespan_set SECOND 30 (SettingTimespan_init 0)))) = 30000000"
    by (simp add: Poco_Timespan_def)
  moreover from c i
    SettingTimespan_set_reports [of MILLISECOND "0xFFFFFFFFFFFFFFFF" "SettingTimespan_init 0" ?tally "[]"]
  have "SettingTimespan_toField MILLISECOND
        (SettingTimespan_set MILLISECOND 0xFFFFFFFFFFFFFFFF (SettingTimespan_init 0))
       \<noteq> Field_UInt64 0xFFFFFFFFFFFFFFFF
     \<and> SettingTimespan_serialize MILLISECOND
        (SettingTimespan_set MILLISECOND 0xFFFFFFFFFFFFFFFF (SettingTimespan_init 0)) []
       \<noteq> writeVarUInt 0xFFFFFFFFFFFFFFFF []
     \<and> SettingTimespan_toString ?tally MILLISECOND
        (SettingTimespan_set MILLISECOND 0xFFFFFFFFFFFFFFFF (SettingTimespan_init 0))
       \<noteq> ?tally 0xFFFFFFFFFFFFFFFF"
    by blast
  ultimately show ?thesis by blast
qed

text \<open>
  The claim as written, for every \<open>n\<close>, fails at the largest one: in milliseconds,
  \<open>set(2^64 - 1)\<close> stores \<open>2^64 - 1000\<close> and \<open>toField()\<close> reports 18446744073709550.
\<close>

theorem SettingTimespan_set_overflow_counterexample:
  "SettingTimespan_toField MILLISECOND
     (SettingTimespan_set MILLISECOND 0xFFFFFFFFFFFFFFFF (SettingTimespan_init 0))
   = Field_UInt64 18446744073709550
   \<and> (18446744073709550 :: UInt64) \<noteq> 0xFFFFFFFFFFFFFFFF"
  by (simp add: SettingTimespan_toField_def SettingTimespan_set_def SettingTimespan_set_Timespan_def
      SettingTimespan_init_def Poco_Timespan_def totalMicroseconds_def SettingTimespan_getValue_def)

subsection \<open>SettingChar: the text form has one character\<close>

lemma encodeVarUInt_1: "encodeVarUInt (Suc 0) = [CHR 0x01]"
  by (subst encodeVarUInt.simps) (simp add: char_of_eq_iff)

text \<open>
  C5, as amended. For the single-character setting, whatever cell the set calls have
  left, \<open>toText()\<close> and \<open>toField()\<close> return the one-character string that holds the
  stored character, the null character included, and \<open>serialize\<close> writes a
  length-prefixed string of length exactly 1: the length byte 1, then the character.
\<close>

theorem SettingChar_reads_one_character:
  "SettingChar_toString d = [value d]
   \<and> SettingChar_toField d = Field_String [value d]
   \<and> SettingChar_serialize d buf = buf @ [CHR 0x01, value d]
   \<and> readBinary (SettingChar_serialize d [] @ rest) = Inr ([value d], rest)"
  by (simp add: SettingChar_toString_def SettingChar_getValue_def SettingChar_toField_def
      SettingChar_serialize_def writeBinary_def writeVarUInt_def encodeVarUInt_1
      readBinary_def readVarUInt_def)

text \<open>
  The claim as written fails for the null character: \<open>set("")\<close> stores it, and then
  \<open>toText()\<close> is the string of length 1 that holds it, not the empty string.
\<close>

theorem SettingChar_null_counterexample:
  "SettingChar_set_String [] (SettingChar_init (CHR ''x'')) = Inr \<lparr>value = CHR 0x00, changed = True\<rparr>
   \<and> SettingChar_toString \<lparr>value = CHR 0x00, changed = True\<rparr> = [CHR 0x00]
   \<and> SettingChar_toString \<lparr>value = CHR 0x00, changed = True\<rparr> \<noteq> []
   \<and> SettingChar_serialize \<lparr>value = CHR 0x00, changed = True\<rparr> [] = [CHR 0x01, CHR 0x00]"
  by (simp add: SettingChar_set_String_def SettingChar_set_def SettingChar_toString_def
      SettingChar_getValue_def SettingChar_serialize_def writeBinary_def writeVarUInt_def
      encodeVarUInt_1)

subsection \<open>SettingEnum: name tables\<close>

lemma readBinary_writeBinary:
  assumes "length s < 2 ^ 64"
  shows "readBinary (writeBinary s [] @ rest) = Inr (s, rest)"
proof -
  have u: "unat (word_of_nat (length s) :: UInt64) = length s"
    using assms by (simp add: unsigned_of_nat take_bit_nat_eq_self)
  have "decodeVarUInt (encodeVarUInt (length s) @ (s @ rest)) = Some (length s, s @ rest)"
    by (rule decode_encodeVarUInt)
  then show ?thesis
    using u by (simp add: readBinary_def writeBinary_def readVarUInt_def writeVarUInt_def)
qed

lemma TO_STRING_HELPER_member:
  "distinct (map fst tbl) \<Longrightarrow> (m, k) \<in> set tbl \<Longrightarrow>
   IMPLEMENT_SETTING_ENUM_TO_STRING_HELPER tbl m = Some k"
proof (induction tbl)
  case Nil
  then show ?case by simp
next
  case (Cons e tbl)
  obtain m' k' where e: "e = (m', k')" by (cases e)
  show ?case
  proof (cases "m = m'")
    case True
    with Cons.prems e have "k = k'" by (auto simp: image_iff)
    with True e show ?thesis by simp
  next
    case False
    with Cons e show ?thesis by auto
  qed
qed

lemma FROM_STRING_HELPER_member:
  "distinct (map snd tbl) \<Longrightarrow> (m, k) \<in> set tbl \<Longrightarrow>
   IMPLEMENT_SETTING_ENUM_FROM_STRING_HELPER tbl k = Some m"
proof (induction tbl)
  case Nil
  then show ?case by simp
next
  case (Cons e tbl)
  obtain m' k' where e: "e = (m', k')" by (cases e)
  show ?case
  proof (cases "k = k'")
    case True
    with Cons.prems e have "m = m'" by (auto simp: image_iff)
    with True e show ?thesis by simp
  next
    case False
    with Cons e show ?thesis by auto
  qed
qed

lemma FROM_STRING_HELPER_None:
  "(IMPLEMENT_SETTING_ENUM_FROM_STRING_HELPER tbl s = None) = (s \<notin> snd ` set tbl)"
  by (induction tbl) (auto simp: image_iff split: if_splits)

lemma SettingEnum_round_trips_distinct:
  assumes "distinct (map fst (LIST_OF_NAMES I))" and "distinct (map snd (LIST_OF_NAMES I))"
    and "\<forall>k \<in> snd ` set (LIST_OF_NAMES I). length k < 2 ^ 64"
  shows "SettingEnum_round_trips I"
  unfolding SettingEnum_round_trips_def
proof (intro ballI, clarify)
  fix m k c d rest
  assume mem: "(m, k) \<in> set (LIST_OF_NAMES I)"
  have len: "length k < 2 ^ 64" using assms(3) mem by force
  have ts: "IMPLEMENT_SETTING_ENUM_TO_STRING_HELPER (LIST_OF_NAMES I) m = Some k"
    by (rule TO_STRING_HELPER_member [OF assms(1) mem])
  have fs: "IMPLEMENT_SETTING_ENUM_FROM_STRING_HELPER (LIST_OF_NAMES I) k = Some m"
    by (rule FROM_STRING_HELPER_member [OF assms(2) mem])
  show "SettingEnum_toString I \<lparr>value = m, changed = c\<rparr> = Inr k
        \<and> SettingEnum_set_String I k d = Inr \<lparr>value = m, changed = True\<rparr>
        \<and> SettingEnum_serialize I \<lparr>value = m, changed = c\<rparr> [] = Inr (writeBinary k [])
        \<and> SettingEnum_deserialize I (writeBinary k [] @ rest) d
            = Inr (\<lparr>value = m, changed = True\<rparr>, rest)"
    by (simp add: SettingEnum_toString_def SettingEnum_getValue_def ts SettingEnum_set_String_def fs
        SettingEnum_set_def SettingEnum_serialize_def SettingEnum_deserialize_def
        readBinary_writeBinary [OF len])
qed

lemma round_trips_LoadBalancing: "SettingEnum_round_trips SettingLoadBalancing"
  by (rule SettingEnum_round_trips_distinct)
     (simp_all add: SettingLoadBalancing_def LOAD_BALANCING_LIST_OF_NAMES_def)

lemma round_trips_JoinStrictness: "SettingEnum_round_trips SettingJoinStrictness"
  by (rule SettingEnum_round_trips_distinct)
     (simp_all add: SettingJoinStrictness_def JOIN_STRICTNESS_LIST_OF_NAMES_def)

lemma round_trips_TotalsMode: "SettingEnum_round_trips SettingTotalsMode"
  by (rule SettingEnum_round_trips_distinct)
     (simp_all add: SettingTotalsMode_def TOTALS_MODE_LIST_OF_NAMES_def)

lemma round_trips_OverflowMode: "SettingEnum_round_trips SettingOverflowMode"
  by (rule SettingEnum_round_trips_distinct)
     (simp_all add: SettingOverflowMode_def OVERFLOW_MODE_LIST_OF_NAMES_def)

lemma round_trips_OverflowModeGroupBy: "SettingEnum_round_trips SettingOverflowModeGroupBy"
  by (rule SettingEnum_round_trips_distinct)
     (simp_all add: SettingOverflowModeGroupBy_def OVERFLOW_MODE_LIST_OF_NAMES_WITH_ANY_def)

lemma round_trips_DistributedProductMode: "SettingEnum_round_trips SettingDistributedProductMode"
  by (rule SettingEnum_round_trips_distinct)
     (simp_all add: SettingDistributedProductMode_def DISTRIBUTED_PRODUCT_MODE_LIST_OF_NAMES_def)

lemma round_trips_DateTimeInputFormat: "SettingEnum_round_trips SettingDateTimeInputFormat"
  by (rule SettingEnum_round_trips_distinct)
     (simp_all add: SettingDateTimeInputFormat_def DATE_TIME_INPUT_FORMAT_LIST_OF_NAMES_def)

lemma round_trips_LogsLevel: "SettingEnum_round_trips SettingLogsLevel"
  by (rule SettingEnum_round_trips_distinct)
     (simp_all add: SettingLogsLevel_def LOGS_LEVEL_LIST_OF_NAMES_def)

text \<open>
  C6. For every closed-enum setting instantiation and every member listed in its name
  table, \<open>set(toText(member))\<close> stores the member again, and deserializing the bytes
  that \<open>serialize\<close> produced from a cell holding the member yields a cell holding the
  member: \<open>serialize\<close> writes the member's keyword as a length-prefixed string, and
  \<open>deserialize\<close> reads that string and calls \<open>set(string)\<close>. Stated for each of the
  eight instantiations of the file.
\<close>

theorem SettingEnum_instantiations_round_trip:
  "SettingEnum_round_trips SettingLoadBalancing
   \<and> SettingEnum_round_trips SettingJoinStrictness
   \<and> SettingEnum_round_trips SettingTotalsMode
   \<and> SettingEnum_round_trips SettingOverflowMode
   \<and> SettingEnum_round_trips SettingOverflowModeGroupBy
   \<and> SettingEnum_round_trips SettingDistributedProductMode
   \<and> SettingEnum_round_trips SettingDateTimeInputFormat
   \<and> SettingEnum_round_trips SettingLogsLevel"
  by (intro conjI round_trips_LoadBalancing round_trips_JoinStrictness round_trips_TotalsMode
      round_trips_OverflowMode round_trips_OverflowModeGroupBy round_trips_DistributedProductMode
      round_trips_DateTimeInputFormat round_trips_LogsLevel)

theorem SettingEnum_instantiations_round_trip_witness:
  "(LoadBalancing_IN_ORDER, ''in_order'') \<in> set (LIST_OF_NAMES SettingLoadBalancing)
   \<and> SettingEnum_toString SettingLoadBalancing \<lparr>value = LoadBalancing_IN_ORDER, changed = False\<rparr>
       = Inr ''in_order''
   \<and> SettingEnum_set_String SettingLoadBalancing ''in_order'' (SettingEnum_init LoadBalancing_RANDOM)
       = Inr \<lparr>value = LoadBalancing_IN_ORDER, changed = True\<rparr>
   \<and> SettingEnum_deserialize SettingLoadBalancing (writeBinary ''in_order'' [] @ ''rest'')
        (SettingEnum_init LoadBalancing_RANDOM)
       = Inr (\<lparr>value = LoadBalancing_IN_ORDER, changed = True\<rparr>, ''rest'')"
proof -
  have mem: "(LoadBalancing_IN_ORDER, ''in_order'') \<in> set (LIST_OF_NAMES SettingLoadBalancing)"
    by (simp add: SettingLoadBalancing_def LOAD_BALANCING_LIST_OF_NAMES_def)
  from SettingEnum_instantiations_round_trip
  have "SettingEnum_round_trips SettingLoadBalancing" by (rule conjunct1)
  then have "\<forall>(NAME, IO_NAME) \<in> set (LIST_OF_NAMES SettingLoadBalancing). \<forall>c d rest.
        SettingEnum_toString SettingLoadBalancing \<lparr>value = NAME, changed = c\<rparr> = Inr IO_NAME
        \<and> SettingEnum_set_String SettingLoadBalancing IO_NAME d = Inr \<lparr>value = NAME, changed = True\<rparr>
        \<and> SettingEnum_serialize SettingLoadBalancing \<lparr>value = NAME, changed = c\<rparr> [] = Inr (writeBinary IO_NAME [])
        \<and> SettingEnum_deserialize SettingLoadBalancing (writeBinary IO_NAME [] @ rest) d
            = Inr (\<lparr>value = NAME, changed = True\<rparr>, rest)"
    by (simp only: SettingEnum_round_trips_def)
  from bspec [OF this mem] mem show ?thesis by blast
qed

lemma CONCAT_NAMES_HELPER_nonempty:
  "acc \<noteq> [] \<Longrightarrow>
   IMPLEMENT_SETTING_ENUM_CONCAT_NAMES_HELPER tbl acc
     = acc @ concat (map (\<lambda>e. '', '' @ spec_quoted (snd e)) tbl)"
  by (induction tbl arbitrary: acc) (auto simp: spec_quoted_def)

lemma spec_joined_Cons:
  "spec_joined sep (x # xs) = x @ concat (map (\<lambda>y. sep @ y) xs)"
  by (induction xs arbitrary: x) auto

lemma CONCAT_NAMES_HELPER_joined:
  "IMPLEMENT_SETTING_ENUM_CONCAT_NAMES_HELPER tbl [] = spec_joined '', '' (map (\<lambda>e. spec_quoted (snd e)) tbl)"
proof (cases tbl)
  case Nil
  then show ?thesis by simp
next
  case (Cons e rest)
  obtain m k where e: "e = (m, k)" by (cases e)
  have ne: "spec_quoted k \<noteq> []" by (simp add: spec_quoted_def)
  have "IMPLEMENT_SETTING_ENUM_CONCAT_NAMES_HELPER tbl []
      = IMPLEMENT_SETTING_ENUM_CONCAT_NAMES_HELPER rest (spec_quoted k)"
    using Cons e by (simp add: spec_quoted_def)
  also have "\<dots> = spec_quoted k @ concat (map (\<lambda>e. '', '' @ spec_quoted (snd e)) rest)"
    by (rule CONCAT_NAMES_HELPER_nonempty [OF ne])
  finally show ?thesis
    using Cons e by (simp add: spec_joined_Cons comp_def)
qed

text \<open>
  C7. For every closed-enum setting, \<open>set(string)\<close> with a string that is none of the
  keywords of its name table (compared exactly) raises the exception with the
  instantiation's error code and stores nothing (the result is the exception, not a
  cell); the message names the enum and the string and lists every keyword of the
  table, each in quotes, joined by a comma and a space.
\<close>

theorem SettingEnum_set_String_unknown:
  assumes "s \<notin> snd ` set (LIST_OF_NAMES I)"
  shows "SettingEnum_set_String I s d =
     Inl (Exception
            (''Unknown '' @ ENUM_NAME I @ '' : '' @ spec_quoted s @ '', must be one of ''
             @ spec_joined '', '' (map (\<lambda>e. spec_quoted (snd e)) (LIST_OF_NAMES I)))
            (ERROR_CODE_FOR_UNEXPECTED_NAME I))"
  using assms
  by (simp add: SettingEnum_set_String_def FROM_STRING_HELPER_None [symmetric]
      CONCAT_NAMES_HELPER_joined spec_quoted_def)

theorem SettingEnum_set_String_unknown_witness:
  "''not-a-real-keyword'' \<notin> snd ` set (LIST_OF_NAMES SettingLoadBalancing)
   \<and> SettingEnum_set_String SettingLoadBalancing ''not-a-real-keyword'' (SettingEnum_init LoadBalancing_RANDOM)
     = Inl (Exception
         (''Unknown LoadBalancing : 'not-a-real-keyword', must be one of 'random', 'nearest_hostname', 'in_order', 'first_or_random'' @ [CHR 0x27])
         UNKNOWN_LOAD_BALANCING)
   \<and> ''all'' \<notin> snd ` set (LIST_OF_NAMES SettingJoinStrictness)
   \<and> SettingEnum_set_String SettingJoinStrictness ''all'' (SettingEnum_init JoinStrictness_ANY)
     = Inl (Exception
         (''Unknown JoinStrictness : 'all', must be one of '' @ [CHR 0x27, CHR 0x27] @ '', 'ALL', 'ANY'' @ [CHR 0x27])
         UNKNOWN_JOIN_STRICTNESS)"
proof -
  have a: "''not-a-real-keyword'' \<notin> snd ` set (LIST_OF_NAMES SettingLoadBalancing)"
    by (simp add: SettingLoadBalancing_def LOAD_BALANCING_LIST_OF_NAMES_def)
  have b: "''all'' \<notin> snd ` set (LIST_OF_NAMES SettingJoinStrictness)"
    by (simp add: SettingJoinStrictness_def JOIN_STRICTNESS_LIST_OF_NAMES_def)
  from SettingEnum_set_String_unknown [OF a, of "SettingEnum_init LoadBalancing_RANDOM"]
  have c: "SettingEnum_set_String SettingLoadBalancing ''not-a-real-keyword'' (SettingEnum_init LoadBalancing_RANDOM)
     = Inl (Exception
         (''Unknown LoadBalancing : 'not-a-real-keyword', must be one of 'random', 'nearest_hostname', 'in_order', 'first_or_random'' @ [CHR 0x27])
         UNKNOWN_LOAD_BALANCING)"
    by (simp add: SettingLoadBalancing_def LOAD_BALANCING_LIST_OF_NAMES_def spec_quoted_def)
  from SettingEnum_set_String_unknown [OF b, of "SettingEnum_init JoinStrictness_ANY"]
  have e: "SettingEnum_set_String SettingJoinStrictness ''all'' (SettingEnum_init JoinStrictness_ANY)
     = Inl (Exception
         (''Unknown JoinStrictness : 'all', must be one of '' @ [CHR 0x27, CHR 0x27] @ '', 'ALL', 'ANY'' @ [CHR 0x27])
         UNKNOWN_JOIN_STRICTNESS)"
    by (simp add: SettingJoinStrictness_def JOIN_STRICTNESS_LIST_OF_NAMES_def spec_quoted_def)
  from a c b e show ?thesis by blast
qed

subsection \<open>SettingNumber<bool>::set(const String &)\<close>

lemma length_one: "length x = 1 \<Longrightarrow> \<exists>c. x = [c]"
  by (cases x) auto

lemma checkStringCaseInsensitive_true:
  "checkStringCaseInsensitive ''true'' buf =
     (if map toLowerASCII buf = ''true'' then (True, []) else (False, buf))"
proof -
  have t: "map toLowerASCII ''true'' = ''true''"
    by (simp add: toLowerASCII_def)
  show ?thesis unfolding checkStringCaseInsensitive_def t ..
qed

lemma checkStringCaseInsensitive_false:
  "checkStringCaseInsensitive ''false'' buf =
     (if map toLowerASCII buf = ''false'' then (True, []) else (False, buf))"
proof -
  have f: "map toLowerASCII ''false'' = ''false''"
    by (simp add: toLowerASCII_def)
  show ?thesis unfolding checkStringCaseInsensitive_def f ..
qed

text \<open>
  C4. For the boolean setting's \<open>set(string)\<close>: a single-character string stores false
  exactly when it is "0" and true exactly when it is "1", and any other single character
  raises a CannotParseBool error; a multi-character string stores true exactly when it
  equals the keyword "true" case-insensitively and false exactly when it equals the
  keyword "false" case-insensitively, and every other multi-character string raises
  CannotParseBool. The keyword check is the one modelled from the spec.
\<close>

theorem SettingNumber_bool_set_String_cases:
  "(length x = 1 \<longrightarrow>
      SettingNumber_bool_set_String x d =
        (if x = ''0'' then Inr \<lparr>value = False, changed = True\<rparr>
         else if x = ''1'' then Inr \<lparr>value = True, changed = True\<rparr>
         else Inl (cannot_parse_bool x)))
   \<and> (1 < length x \<longrightarrow>
      SettingNumber_bool_set_String x d =
        (if map toLowerASCII x = ''true'' then Inr \<lparr>value = True, changed = True\<rparr>
         else if map toLowerASCII x = ''false'' then Inr \<lparr>value = False, changed = True\<rparr>
         else Inl (cannot_parse_bool x)))
   \<and> cannot_parse_bool x =
        Exception (''Cannot parse bool from string '' @ [CHR 0x27] @ x @ [CHR 0x27]) CANNOT_PARSE_BOOL"
proof (intro conjI impI)
  assume "length x = 1"
  then obtain c where x: "x = [c]" using length_one by blast
  show "SettingNumber_bool_set_String x d =
        (if x = ''0'' then Inr \<lparr>value = False, changed = True\<rparr>
         else if x = ''1'' then Inr \<lparr>value = True, changed = True\<rparr>
         else Inl (cannot_parse_bool x))"
    by (simp add: x SettingNumber_bool_set_String_def SettingNumber_set_def)
next
  assume "1 < length x"
  then have ne: "length x \<noteq> 1" by simp
  show "SettingNumber_bool_set_String x d =
        (if map toLowerASCII x = ''true'' then Inr \<lparr>value = True, changed = True\<rparr>
         else if map toLowerASCII x = ''false'' then Inr \<lparr>value = False, changed = True\<rparr>
         else Inl (cannot_parse_bool x))"
    using ne
    by (simp add: SettingNumber_bool_set_String_def checkStringCaseInsensitive_true
        checkStringCaseInsensitive_false SettingNumber_set_def)
next
  show "cannot_parse_bool x =
        Exception (''Cannot parse bool from string '' @ [CHR 0x27] @ x @ [CHR 0x27]) CANNOT_PARSE_BOOL"
    by (simp add: cannot_parse_bool_def)
qed

theorem SettingNumber_bool_set_String_cases_witness:
  "SettingNumber_bool_set_String ''1'' (SettingNumber_init False) = Inr \<lparr>value = True, changed = True\<rparr>
   \<and> SettingNumber_bool_set_String ''0'' (SettingNumber_init True) = Inr \<lparr>value = False, changed = True\<rparr>
   \<and> SettingNumber_bool_set_String ''2'' (SettingNumber_init True)
       = Inl (Exception (''Cannot parse bool from string '2'' @ [CHR 0x27]) CANNOT_PARSE_BOOL)
   \<and> SettingNumber_bool_set_String ''TRUE'' (SettingNumber_init False) = Inr \<lparr>value = True, changed = True\<rparr>
   \<and> SettingNumber_bool_set_String ''false'' (SettingNumber_init True) = Inr \<lparr>value = False, changed = True\<rparr>
   \<and> SettingNumber_bool_set_String ''yes'' (SettingNumber_init True)
       = Inl (Exception (''Cannot parse bool from string 'yes'' @ [CHR 0x27]) CANNOT_PARSE_BOOL)"
proof -
  have l1: "length ''1'' = 1" "length ''0'' = 1" "length ''2'' = 1" by simp_all
  have l2: "1 < length ''TRUE''" "1 < length ''false''" "1 < length ''yes''" by simp_all
  note T = SettingNumber_bool_set_String_cases
  from l1(1) T [of "''1''" "SettingNumber_init False"]
  have a: "SettingNumber_bool_set_String ''1'' (SettingNumber_init False) = Inr \<lparr>value = True, changed = True\<rparr>"
    by simp
  from l1(2) T [of "''0''" "SettingNumber_init True"]
  have b: "SettingNumber_bool_set_String ''0'' (SettingNumber_init True) = Inr \<lparr>value = False, changed = True\<rparr>"
    by simp
  from l1(3) T [of "''2''" "SettingNumber_init True"]
  have c: "SettingNumber_bool_set_String ''2'' (SettingNumber_init True)
       = Inl (Exception (''Cannot parse bool from string '2'' @ [CHR 0x27]) CANNOT_PARSE_BOOL)"
    by simp
  from l2(1) T [of "''TRUE''" "SettingNumber_init False"]
  have d: "SettingNumber_bool_set_String ''TRUE'' (SettingNumber_init False) = Inr \<lparr>value = True, changed = True\<rparr>"
    by (simp add: toLowerASCII_def char_of_eq_iff)
  from l2(2) T [of "''false''" "SettingNumber_init True"]
  have e: "SettingNumber_bool_set_String ''false'' (SettingNumber_init True) = Inr \<lparr>value = False, changed = True\<rparr>"
    by (simp add: toLowerASCII_def char_of_eq_iff)
  from l2(3) T [of "''yes''" "SettingNumber_init True"]
  have g: "SettingNumber_bool_set_String ''yes'' (SettingNumber_init True)
       = Inl (Exception (''Cannot parse bool from string 'yes'' @ [CHR 0x27]) CANNOT_PARSE_BOOL)"
    by (simp add: toLowerASCII_def char_of_eq_iff)
  from a b c d e g show ?thesis by blast
qed

subsection \<open>The changed flag\<close>

lemmas set_defs =
  SettingNumber_set_def SettingNumber_set_String_def SettingNumber_bool_set_String_def
  SettingNumber_set_Field_def SettingNumber_deserialize_unsigned_def
  SettingNumber_deserialize_signed_def SettingNumber_deserialize_floating_def
  SettingMaxThreads_set_def SettingMaxThreads_set_String_def SettingMaxThreads_set_Field_def
  SettingMaxThreads_deserialize_def
  SettingTimespan_set_Timespan_def SettingTimespan_set_def SettingTimespan_set_String_def
  SettingTimespan_set_Field_def SettingTimespan_deserialize_def
  SettingString_set_def SettingString_set_Field_def SettingString_deserialize_def
  SettingChar_set_def SettingChar_set_String_def SettingChar_set_Field_def
  SettingChar_deserialize_def
  SettingEnum_set_def SettingEnum_set_String_def SettingEnum_deserialize_def

lemmas init_defs =
  SettingNumber_init_def SettingMaxThreads_init_def SettingTimespan_init_def
  SettingString_init_def SettingChar_init_def SettingEnum_init_def

text \<open>
  C1, as amended. For every setting kind the changed flag is false on construction (the
  constructors are modelled from the spec) and is true after every successful set call,
  whichever overload: native value, interchange value, string, or through
  \<open>deserialize\<close>; the one exception, about which nothing is said here, is
  \<open>set(string)\<close> of the max-threads setting with a string that starts with "auto"
  (given directly or inside an interchange value), which goes through \<open>setAuto()\<close>.
  No read operation (\<open>get\<close>, \<open>toText\<close>, \<open>toField\<close>, \<open>serialize\<close>) modifies the cell,
  so none modifies the changed flag.
\<close>

theorem changed_flag_contract:
  "\<not> changed (SettingNumber_init x)
   \<and> \<not> changed (SettingMaxThreads_init av)
   \<and> \<not> changed (SettingTimespan_init t)
   \<and> \<not> changed (SettingString_init s)
   \<and> \<not> changed (SettingChar_init ch)
   \<and> \<not> changed (SettingEnum_init m)
   \<and> changed (SettingNumber_set x dN)
   \<and> (SettingNumber_set_String parse s dN = Inr dN' \<longrightarrow> changed dN')
   \<and> (SettingNumber_bool_set_String s dB = Inr dB' \<longrightarrow> changed dB')
   \<and> (SettingNumber_set_Field (SettingNumber_set_String parse) convert f dN = Inr dN' \<longrightarrow> changed dN')
   \<and> (SettingNumber_set_Field SettingNumber_bool_set_String convertB f dB = Inr dB' \<longrightarrow> changed dB')
   \<and> (SettingNumber_deserialize_unsigned from_u64 buf dN = Inr (dN', rest) \<longrightarrow> changed dN')
   \<and> (SettingNumber_deserialize_signed buf dI = Inr (dI', rest) \<longrightarrow> changed dI')
   \<and> (SettingNumber_deserialize_floating parse buf dN = Inr (dN', rest) \<longrightarrow> changed dN')
   \<and> changed (SettingMaxThreads_set av n dM)
   \<and> (\<not> startsWith s ''auto'' \<longrightarrow>
        SettingMaxThreads_set_String parseU av s dM = Inr dM' \<longrightarrow> changed dM')
   \<and> ((\<forall>s'. f = Field_String s' \<longrightarrow> \<not> startsWith s' ''auto'') \<longrightarrow>
        SettingMaxThreads_set_Field parseU av f dM = Inr dM' \<longrightarrow> changed dM')
   \<and> (SettingMaxThreads_deserialize av buf dM = Inr (dM', rest) \<longrightarrow> changed dM')
   \<and> changed (SettingTimespan_set_Timespan t dT)
   \<and> changed (SettingTimespan_set io n dT)
   \<and> (SettingTimespan_set_String parseU io s dT = Inr dT' \<longrightarrow> changed dT')
   \<and> (SettingTimespan_set_Field parseU io f dT = Inr dT' \<longrightarrow> changed dT')
   \<and> (SettingTimespan_deserialize io buf dT = Inr (dT', rest) \<longrightarrow> changed dT')
   \<and> changed (SettingString_set s dS)
   \<and> (SettingString_set_Field f dS = Inr dS' \<longrightarrow> changed dS')
   \<and> (SettingString_deserialize buf dS = Inr (dS', rest) \<longrightarrow> changed dS')
   \<and> changed (SettingChar_set ch dC)
   \<and> (SettingChar_set_String s dC = Inr dC' \<longrightarrow> changed dC')
   \<and> (SettingChar_set_Field f dC = Inr dC' \<longrightarrow> changed dC')
   \<and> (SettingChar_deserialize buf dC = Inr (dC', rest) \<longrightarrow> changed dC')
   \<and> changed (SettingEnum_set m dE)
   \<and> (SettingEnum_set_String I s dE = Inr dE' \<longrightarrow> changed dE')
   \<and> (SettingEnum_deserialize I buf dE = Inr (dE', rest) \<longrightarrow> changed dE')
   \<and> snd (const_member SettingNumber_getValue dN) = dN
   \<and> snd (const_member (SettingNumber_toString toStr) dN) = dN
   \<and> snd (const_member (SettingNumber_toField toFld) dN) = dN
   \<and> snd (const_member (\<lambda>d. SettingNumber_serialize_unsigned to_u64 d buf) dN) = dN
   \<and> snd (const_member (\<lambda>d. SettingNumber_serialize_signed d buf) dI) = dI
   \<and> snd (const_member (\<lambda>d. SettingNumber_serialize_floating toStr d buf) dN) = dN
   \<and> snd (const_member SettingMaxThreads_getValue dM) = dM
   \<and> snd (const_member (SettingMaxThreads_toString toStrU) dM) = dM
   \<and> snd (const_member SettingMaxThreads_toField dM) = dM
   \<and> snd (const_member (\<lambda>d. SettingMaxThreads_serialize d buf) dM) = dM
   \<and> snd (const_member SettingTimespan_getValue dT) = dT
   \<and> snd (const_member (SettingTimespan_toString toStrU io) dT) = dT
   \<and> snd (const_member (SettingTimespan_toField io) dT) = dT
   \<and> snd (const_member (\<lambda>d. SettingTimespan_serialize io d buf) dT) = dT
   \<and> snd (const_member SettingString_toString dS) = dS
   \<and> snd (const_member SettingString_toField dS) = dS
   \<and> snd (const_member (\<lambda>d. SettingString_serialize d buf) dS) = dS
   \<and> snd (const_member SettingChar_getValue dC) = dC
   \<and> snd (const_member SettingChar_toString dC) = dC
   \<and> snd (const_member SettingChar_toField dC) = dC
   \<and> snd (const_member (\<lambda>d. SettingChar_serialize d buf) dC) = dC
   \<and> snd (const_member SettingEnum_getValue dE) = dE
   \<and> snd (const_member (SettingEnum_toString I) dE) = dE
   \<and> snd (const_member (\<lambda>d. SettingEnum_serialize I d buf) dE) = dE"
  by (intro conjI impI)
     (auto simp: init_defs set_defs const_member_def Let_def
        split: sum.splits if_splits Field.splits prod.splits option.splits bool.splits)


text \<open>
  What the code does in the excepted case: \<open>setAuto()\<close> stores the flag it read with
  \<open>isChanged()\<close>.
\<close>

lemma SettingMaxThreads_set_String_auto:
  "startsWith s ''auto'' \<Longrightarrow>
   SettingMaxThreads_set_String parse av s d = Inr \<lparr>value = av, changed = changed d, is_auto = True\<rparr>"
  by (simp add: SettingMaxThreads_set_String_def SettingMaxThreads_setAuto_def getAutoValue_def
      SettingMaxThreads_isChanged_def)

theorem changed_flag_contract_witness:
  "SettingNumber_set_String (\<lambda>s. Inr 7) ''7'' (SettingNumber_init (0 :: UInt64)) = Inr \<lparr>value = 7, changed = True\<rparr>
   \<and> changed \<lparr>value = 7 :: UInt64, changed = True\<rparr>
   \<and> SettingNumber_bool_set_String ''1'' (SettingNumber_init False) = Inr \<lparr>value = True, changed = True\<rparr>
   \<and> changed \<lparr>value = True, changed = True\<rparr>
   \<and> SettingNumber_set_Field (SettingNumber_set_String (\<lambda>s. Inr 0)) (\<lambda>f. Inr 3) (Field_Int64 3) (SettingNumber_init (0 :: UInt64)) = Inr \<lparr>value = 3, changed = True\<rparr>
   \<and> changed \<lparr>value = 3 :: UInt64, changed = True\<rparr>
   \<and> SettingNumber_set_Field SettingNumber_bool_set_String (\<lambda>f. Inr True) (Field_String ''false'') (SettingNumber_init True) = Inr \<lparr>value = False, changed = True\<rparr>
   \<and> changed \<lparr>value = False, changed = True\<rparr>
   \<and> SettingNumber_deserialize_unsigned bool_of_UInt64 [CHR 0x01] (SettingNumber_init False) = Inr (\<lparr>value = True, changed = True\<rparr>, [])
   \<and> changed \<lparr>value = True, changed = True\<rparr>
   \<and> SettingNumber_deserialize_signed [CHR 0x04] (SettingNumber_init 0) = Inr (\<lparr>value = 2, changed = True\<rparr>, [])
   \<and> changed \<lparr>value = 2 :: Int64, changed = True\<rparr>
   \<and> SettingNumber_deserialize_floating (\<lambda>s. Inr (1 :: nat)) (CHR 0x01 # ''5x'') (SettingNumber_init 0) = Inr (\<lparr>value = 1, changed = True\<rparr>, ''x'')
   \<and> changed \<lparr>value = 1 :: nat, changed = True\<rparr>
   \<and> \<not> startsWith ''4'' ''auto''
   \<and> SettingMaxThreads_set_String (\<lambda>s. Inr 4) 8 ''4'' (SettingMaxThreads_init 8) = Inr \<lparr>value = 4, changed = True, is_auto = False\<rparr>
   \<and> changed \<lparr>value = 4 :: UInt64, changed = True, is_auto = False\<rparr>
   \<and> SettingMaxThreads_set_Field (\<lambda>s. Inr 4) 8 (Field_UInt64 2) (SettingMaxThreads_init 8) = Inr \<lparr>value = 2, changed = True, is_auto = False\<rparr>
   \<and> changed \<lparr>value = 2 :: UInt64, changed = True, is_auto = False\<rparr>
   \<and> SettingMaxThreads_deserialize 8 [CHR 0x00] (SettingMaxThreads_init 8) = Inr (\<lparr>value = 8, changed = True, is_auto = True\<rparr>, [])
   \<and> changed \<lparr>value = 8 :: UInt64, changed = True, is_auto = True\<rparr>
   \<and> SettingTimespan_set_String (\<lambda>s. Inr 2) SECOND ''2'' (SettingTimespan_init 0) = Inr \<lparr>value = 2000000, changed = True\<rparr>
   \<and> changed \<lparr>value = 2000000 :: Timespan, changed = True\<rparr>
   \<and> SettingTimespan_set_Field (\<lambda>s. Inr 2) MILLISECOND (Field_UInt64 3) (SettingTimespan_init 0) = Inr \<lparr>value = 3000, changed = True\<rparr>
   \<and> changed \<lparr>value = 3000 :: Timespan, changed = True\<rparr>
   \<and> SettingTimespan_deserialize SECOND [CHR 0x01] (SettingTimespan_init 0) = Inr (\<lparr>value = 1000000, changed = True\<rparr>, [])
   \<and> changed \<lparr>value = 1000000 :: Timespan, changed = True\<rparr>
   \<and> SettingString_set_Field (Field_String ''ab'') (SettingString_init []) = Inr \<lparr>value = ''ab'', changed = True\<rparr>
   \<and> changed \<lparr>value = ''ab'', changed = True\<rparr>
   \<and> SettingString_deserialize (CHR 0x02 # ''abc'') (SettingString_init []) = Inr (\<lparr>value = ''ab'', changed = True\<rparr>, ''c'')
   \<and> changed \<lparr>value = ''ab'', changed = True\<rparr>
   \<and> SettingChar_set_String ''x'' (SettingChar_init (CHR 0x00)) = Inr \<lparr>value = CHR ''x'', changed = True\<rparr>
   \<and> changed \<lparr>value = CHR ''x'', changed = True\<rparr>
   \<and> SettingChar_set_Field (Field_String ''y'') (SettingChar_init (CHR 0x00)) = Inr \<lparr>value = CHR ''y'', changed = True\<rparr>
   \<and> changed \<lparr>value = CHR ''y'', changed = True\<rparr>
   \<and> SettingChar_deserialize (CHR 0x01 # ''z'') (SettingChar_init (CHR 0x00)) = Inr (\<lparr>value = CHR ''z'', changed = True\<rparr>, [])
   \<and> changed \<lparr>value = CHR ''z'', changed = True\<rparr>
   \<and> SettingEnum_set_String SettingLogsLevel ''trace'' (SettingEnum_init LogsLevel_none) = Inr \<lparr>value = LogsLevel_trace, changed = True\<rparr>
   \<and> changed \<lparr>value = LogsLevel_trace, changed = True\<rparr>
   \<and> SettingEnum_deserialize SettingOverflowMode (CHR 0x05 # ''break'') (SettingEnum_init OverflowMode_THROW) = Inr (\<lparr>value = OverflowMode_BREAK, changed = True\<rparr>, [])
   \<and> changed \<lparr>value = OverflowMode_BREAK, changed = True\<rparr>"
proof -
  have e8: "SettingNumber_set_String (\<lambda>s. Inr 7) ''7'' (SettingNumber_init (0 :: UInt64)) = Inr \<lparr>value = 7, changed = True\<rparr>"
    by (simp add: SettingNumber_set_String_def SettingNumber_set_def)
  have c8: "changed \<lparr>value = 7 :: UInt64, changed = True\<rparr>"
    by (rule changed_flag_contract [THEN conjunct2, THEN conjunct2, THEN conjunct2, THEN conjunct2, THEN conjunct2, THEN conjunct2, THEN conjunct2, THEN conjunct1, THEN mp, OF e8])
  have e9: "SettingNumber_bool_set_String ''1'' (SettingNumber_init False) = Inr \<lparr>value = True, changed = True\<rparr>"
    by (simp add: SettingNumber_bool_set_String_def SettingNumber_set_def)
  have c9: "changed \<lparr>value = True, changed = True\<rparr>"
    by (rule changed_flag_contract [THEN conjunct2, THEN conjunct2, THEN conjunct2, THEN conjunct2, THEN conjunct2, THEN conjunct2, THEN conjunct2, THEN conjunct2, THEN conjunct1, THEN mp, OF e9])
  have e10: "SettingNumber_set_Field (SettingNumber_set_String (\<lambda>s. Inr 0)) (\<lambda>f. Inr 3) (Field_Int64 3) (SettingNumber_init (0 :: UInt64)) = Inr \<lparr>value = 3, changed = True\<rparr>"
    by (simp add: SettingNumber_set_Field_def SettingNumber_set_def)
  have c10: "changed \<lparr>value = 3 :: UInt64, changed = True\<rparr>"
    by (rule changed_flag_contract [THEN conjunct2, THEN conjunct2, THEN conjunct2, THEN conjunct2, THEN conjunct2, THEN conjunct2, THEN conjunct2, THEN conjunct2, THEN conjunct2, THEN conjunct1, THEN mp, OF e10])
  have e11: "SettingNumber_set_Field SettingNumber_bool_set_String (\<lambda>f. Inr True) (Field_String ''false'') (SettingNumber_init True) = Inr \<lparr>value = False, changed = True\<rparr>"
    by (simp add: SettingNumber_set_Field_def SettingNumber_bool_set_String_def checkStringCaseInsensitive_true checkStringCaseInsensitive_false toLowerASCII_def SettingNumber_set_def)
  have c11: "changed \<lparr>value = False, changed = True\<rparr>"
    by (rule changed_flag_contract [THEN conjunct2, THEN conjunct2, THEN conjunct2, THEN conjunct2, THEN conjunct2, THEN conjunct2, THEN conjunct2, THEN conjunct2, THEN conjunct2, THEN conjunct2, THEN conjunct1, THEN mp, OF e11])
  have e12: "SettingNumber_deserialize_unsigned bool_of_UInt64 [CHR 0x01] (SettingNumber_init False) = Inr (\<lparr>value = True, changed = True\<rparr>, [])"
    by (simp add: SettingNumber_deserialize_unsigned_def readVarUInt_def bool_of_UInt64_def SettingNumber_set_def)
  have c12: "changed \<lparr>value = True, changed = True\<rparr>"
    by (rule changed_flag_contract [THEN conjunct2, THEN conjunct2, THEN conjunct2, THEN conjunct2, THEN conjunct2, THEN conjunct2, THEN conjunct2, THEN conjunct2, THEN conjunct2, THEN conjunct2, THEN conjunct2, THEN conjunct1, THEN mp, OF e12])
  have e13: "SettingNumber_deserialize_signed [CHR 0x04] (SettingNumber_init 0) = Inr (\<lparr>value = 2, changed = True\<rparr>, [])"
    by (simp add: SettingNumber_deserialize_signed_def readVarInt_def readVarUInt_def SettingNumber_set_def)
  have c13: "changed \<lparr>value = 2 :: Int64, changed = True\<rparr>"
    by (rule changed_flag_contract [THEN conjunct2, THEN conjunct2, THEN conjunct2, THEN conjunct2, THEN conjunct2, THEN conjunct2, THEN conjunct2, THEN conjunct2, THEN conjunct2, THEN conjunct2, THEN conjunct2, THEN conjunct2, THEN conjunct1, THEN mp, OF e13])
  have e14: "SettingNumber_deserialize_floating (\<lambda>s. Inr (1 :: nat)) (CHR 0x01 # ''5x'') (SettingNumber_init 0) = Inr (\<lparr>value = 1, changed = True\<rparr>, ''x'')"
    by (simp add: SettingNumber_deserialize_floating_def readBinary_def readVarUInt_def SettingNumber_set_String_def SettingNumber_set_def)
  have c14: "changed \<lparr>value = 1 :: nat, changed = True\<rparr>"
    by (rule changed_flag_contract [THEN conjunct2, THEN conjunct2, THEN conjunct2, THEN conjunct2, THEN conjunct2, THEN conjunct2, THEN conjunct2, THEN conjunct2, THEN conjunct2, THEN conjunct2, THEN conjunct2, THEN conjunct2, THEN conjunct2, THEN conjunct1, THEN mp, OF e14])
  have h16_0: "\<not> startsWith ''4'' ''auto''"
    by (simp add: startsWith_def)
  have e16: "SettingMaxThreads_set_String (\<lambda>s. Inr 4) 8 ''4'' (SettingMaxThreads_init 8) = Inr \<lparr>value = 4, changed = True, is_auto = False\<rparr>"
    by (simp add: SettingMaxThreads_set_String_def startsWith_def SettingMaxThreads_set_def)
  have c16: "changed \<lparr>value = 4 :: UInt64, changed = True, is_auto = False\<rparr>"
    by (rule changed_flag_contract [THEN conjunct2, THEN conjunct2, THEN conjunct2, THEN conjunct2, THEN conjunct2, THEN conjunct2, THEN conjunct2, THEN conjunct2, THEN conjunct2, THEN conjunct2, THEN conjunct2, THEN conjunct2, THEN conjunct2, THEN conjunct2, THEN conjunct2, THEN conjunct1, THEN mp, THEN mp, OF h16_0 e16])
  have h17_0: "\<forall>s'. Field_UInt64 2 = Field_String s' \<longrightarrow> \<not> startsWith s' ''auto''"
    by (simp add: startsWith_def)
  have e17: "SettingMaxThreads_set_Field (\<lambda>s. Inr 4) 8 (Field_UInt64 2) (SettingMaxThreads_init 8) = Inr \<lparr>value = 2, changed = True, is_auto = False\<rparr>"
    by (simp add: SettingMaxThreads_set_Field_def SettingMaxThreads_set_def)
  have c17: "changed \<lparr>value = 2 :: UInt64, changed = True, is_auto = False\<rparr>"
    by (rule changed_flag_contract [THEN conjunct2, THEN conjunct2, THEN conjunct2, THEN conjunct2, THEN conjunct2, THEN conjunct2, THEN conjunct2, THEN conjunct2, THEN conjunct2, THEN conjunct2, THEN conjunct2, THEN conjunct2, THEN conjunct2, THEN conjunct2, THEN conjunct2, THEN conjunct2, THEN conjunct1, THEN mp, THEN mp, OF h17_0 e17])
  have e18: "SettingMaxThreads_deserialize 8 [CHR 0x00] (SettingMaxThreads_init 8) = Inr (\<lparr>value = 8, changed = True, is_auto = True\<rparr>, [])"
    by (simp add: SettingMaxThreads_deserialize_def readVarUInt_def SettingMaxThreads_set_def getAutoValue_def)
  have c18: "changed \<lparr>value = 8 :: UInt64, changed = True, is_auto = True\<rparr>"
    by (rule changed_flag_contract [THEN conjunct2, THEN conjunct2, THEN conjunct2, THEN conjunct2, THEN conjunct2, THEN conjunct2, THEN conjunct2, THEN conjunct2, THEN conjunct2, THEN conjunct2, THEN conjunct2, THEN conjunct2, THEN conjunct2, THEN conjunct2, THEN conjunct2, THEN conjunct2, THEN conjunct2, THEN conjunct1, THEN mp, OF e18])
  have e21: "SettingTimespan_set_String (\<lambda>s. Inr 2) SECOND ''2'' (SettingTimespan_init 0) = Inr \<lparr>value = 2000000, changed = True\<rparr>"
    by (simp add: SettingTimespan_set_String_def SettingTimespan_set_def SettingTimespan_set_Timespan_def Poco_Timespan_def SettingTimespan_init_def)
  have c21: "changed \<lparr>value = 2000000 :: Timespan, changed = True\<rparr>"
    by (rule changed_flag_contract [THEN conjunct2, THEN conjunct2, THEN conjunct2, THEN conjunct2, THEN conjunct2, THEN conjunct2, THEN conjunct2, THEN conjunct2, THEN conjunct2, THEN conjunct2, THEN conjunct2, THEN conjunct2, THEN conjunct2, THEN conjunct2, THEN conjunct2, THEN conjunct2, THEN conjunct2, THEN conjunct2, THEN conjunct2, THEN conjunct2, THEN conjunct1, THEN mp, OF e21])
  have e22: "SettingTimespan_set_Field (\<lambda>s. Inr 2) MILLISECOND (Field_UInt64 3) (SettingTimespan_init 0) = Inr \<lparr>value = 3000, changed = True\<rparr>"
    by (simp add: SettingTimespan_set_Field_def SettingTimespan_set_def SettingTimespan_set_Timespan_def Poco_Timespan_def SettingTimespan_init_def)
  have c22: "changed \<lparr>value = 3000 :: Timespan, changed = True\<rparr>"
    by (rule changed_flag_contract [THEN conjunct2, THEN conjunct2, THEN conjunct2, THEN conjunct2, THEN conjunct2, THEN conjunct2, THEN conjunct2, THEN conjunct2, THEN conjunct2, THEN conjunct2, THEN conjunct2, THEN conjunct2, THEN conjunct2, THEN conjunct2, THEN conjunct2, THEN conjunct2, THEN conjunct2, THEN conjunct2, THEN conjunct2, THEN conjunct2, THEN conjunct2, THEN conjunct1, THEN mp, OF e22])
  have e23: "SettingTimespan_deserialize SECOND [CHR 0x01] (SettingTimespan_init 0) = Inr (\<lparr>value = 1000000, changed = True\<rparr>, [])"
    by (simp add: SettingTimespan_deserialize_def readVarUInt_def SettingTimespan_set_def SettingTimespan_set_Timespan_def Poco_Timespan_def SettingTimespan_init_def)
  have c23: "changed \<lparr>value = 1000000 :: Timespan, changed = True\<rparr>"
    by (rule changed_flag_contract [THEN conjunct2, THEN conjunct2, THEN conjunct2, THEN conjunct2, THEN conjunct2, THEN conjunct2, THEN conjunct2, THEN conjunct2, THEN conjunct2, THEN conjunct2, THEN conjunct2, THEN conjunct2, THEN conjunct2, THEN conjunct2, THEN conjunct2, THEN conjunct2, THEN conjunct2, THEN conjunct2, THEN conjunct2, THEN conjunct2, THEN conjunct2, THEN conjunct2, THEN conjunct1, THEN mp, OF e23])
  have e25: "SettingString_set_Field (Field_String ''ab'') (SettingString_init []) = Inr \<lparr>value = ''ab'', changed = True\<rparr>"
    by (simp add: SettingString_set_Field_def SettingString_set_def SettingString_init_def)
  have c25: "changed \<lparr>value = ''ab'', changed = True\<rparr>"
    by (rule changed_flag_contract [THEN conjunct2, THEN conjunct2, THEN conjunct2, THEN conjunct2, THEN conjunct2, THEN conjunct2, THEN conjunct2, THEN conjunct2, THEN conjunct2, THEN conjunct2, THEN conjunct2, THEN conjunct2, THEN conjunct2, THEN conjunct2, THEN conjunct2, THEN conjunct2, THEN conjunct2, THEN conjunct2, THEN conjunct2, THEN conjunct2, THEN conjunct2, THEN conjunct2, THEN conjunct2, THEN conjunct2, THEN conjunct1, THEN mp, OF e25])
  have e26: "SettingString_deserialize (CHR 0x02 # ''abc'') (SettingString_init []) = Inr (\<lparr>value = ''ab'', changed = True\<rparr>, ''c'')"
    by (simp add: SettingString_deserialize_def readBinary_def readVarUInt_def SettingString_set_def SettingString_init_def)
  have c26: "changed \<lparr>value = ''ab'', changed = True\<rparr>"
    by (rule changed_flag_contract [THEN conjunct2, THEN conjunct2, THEN conjunct2, THEN conjunct2, THEN conjunct2, THEN conjunct2, THEN conjunct2, THEN conjunct2, THEN conjunct2, THEN conjunct2, THEN conjunct2, THEN conjunct2, THEN conjunct2, THEN conjunct2, THEN conjunct2, THEN conjunct2, THEN conjunct2, THEN conjunct2, THEN conjunct2, THEN conjunct2, THEN conjunct2, THEN conjunct2, THEN conjunct2, THEN conjunct2, THEN conjunct2, THEN conjunct1, THEN mp, OF e26])
  have e28: "SettingChar_set_String ''x'' (SettingChar_init (CHR 0x00)) = Inr \<lparr>value = CHR ''x'', changed = True\<rparr>"
    by (simp add: SettingChar_set_String_def SettingChar_set_def)
  have c28: "changed \<lparr>value = CHR ''x'', changed = True\<rparr>"
    by (rule changed_flag_contract [THEN conjunct2, THEN conjunct2, THEN conjunct2, THEN conjunct2, THEN conjunct2, THEN conjunct2, THEN conjunct2, THEN conjunct2, THEN conjunct2, THEN conjunct2, THEN conjunct2, THEN conjunct2, THEN conjunct2, THEN conjunct2, THEN conjunct2, THEN conjunct2, THEN conjunct2, THEN conjunct2, THEN conjunct2, THEN conjunct2, THEN conjunct2, THEN conjunct2, THEN conjunct2, THEN conjunct2, THEN conjunct2, THEN conjunct2, THEN conjunct2, THEN conjunct1, THEN mp, OF e28])
  have e29: "SettingChar_set_Field (Field_String ''y'') (SettingChar_init (CHR 0x00)) = Inr \<lparr>value = CHR ''y'', changed = True\<rparr>"
    by (simp add: SettingChar_set_Field_def SettingChar_set_String_def SettingChar_set_def)
  have c29: "changed \<lparr>value = CHR ''y'', changed = True\<rparr>"
    by (rule changed_flag_contract [THEN conjunct2, THEN conjunct2, THEN conjunct2, THEN conjunct2, THEN conjunct2, THEN conjunct2, THEN conjunct2, THEN conjunct2, THEN conjunct2, THEN conjunct2, THEN conjunct2, THEN conjunct2, THEN conjunct2, THEN conjunct2, THEN conjunct2, THEN conjunct2, THEN conjunct2, THEN conjunct2, THEN conjunct2, THEN conjunct2, THEN conjunct2, THEN conjunct2, THEN conjunct2, THEN conjunct2, THEN conjunct2, THEN conjunct2, THEN conjunct2, THEN conjunct2, THEN conjunct1, THEN mp, OF e29])
  have e30: "SettingChar_deserialize (CHR 0x01 # ''z'') (SettingChar_init (CHR 0x00)) = Inr (\<lparr>value = CHR ''z'', changed = True\<rparr>, [])"
    by (simp add: SettingChar_deserialize_def readBinary_def readVarUInt_def SettingChar_set_String_def SettingChar_set_def)
  have c30: "changed \<lparr>value = CHR ''z'', changed = True\<rparr>"
    by (rule changed_flag_contract [THEN conjunct2, THEN conjunct2, THEN conjunct2, THEN conjunct2, THEN conjunct2, THEN conjunct2, THEN conjunct2, THEN conjunct2, THEN conjunct2, THEN conjunct2, THEN conjunct2, THEN conjunct2, THEN conjunct2, THEN conjunct2, THEN conjunct2, THEN conjunct2, THEN conjunct2, THEN conjunct2, THEN conjunct2, THEN conjunct2, THEN conjunct2, THEN conjunct2, THEN conjunct2, THEN conjunct2, THEN conjunct2, THEN conjunct2, THEN conjunct2, THEN conjunct2, THEN conjunct2, THEN conjunct1, THEN mp, OF e30])
  have e32: "SettingEnum_set_String SettingLogsLevel ''trace'' (SettingEnum_init LogsLevel_none) = Inr \<lparr>value = LogsLevel_trace, changed = True\<rparr>"
    by (simp add: SettingEnum_set_String_def SettingLogsLevel_def LOGS_LEVEL_LIST_OF_NAMES_def SettingEnum_set_def)
  have c32: "changed \<lparr>value = LogsLevel_trace, changed = True\<rparr>"
    by (rule changed_flag_contract [THEN conjunct2, THEN conjunct2, THEN conjunct2, THEN conjunct2, THEN conjunct2, THEN conjunct2, THEN conjunct2, THEN conjunct2, THEN conjunct2, THEN conjunct2, THEN conjunct2, THEN conjunct2, THEN conjunct2, THEN conjunct2, THEN conjunct2, THEN conjunct2, THEN conjunct2, THEN conjunct2, THEN conjunct2, THEN conjunct2, THEN conjunct2, THEN conjunct2, THEN conjunct2, THEN conjunct2, THEN conjunct2, THEN conjunct2, THEN conjunct2, THEN conjunct2, THEN conjunct2, THEN conjunct2, THEN conjunct2, THEN conjunct1, THEN mp, OF e32])
  have e33: "SettingEnum_deserialize SettingOverflowMode (CHR 0x05 # ''break'') (SettingEnum_init OverflowMode_THROW) = Inr (\<lparr>value = OverflowMode_BREAK, changed = True\<rparr>, [])"
    by (simp add: SettingEnum_deserialize_def readBinary_def readVarUInt_def SettingEnum_set_String_def SettingOverflowMode_def OVERFLOW_MODE_LIST_OF_NAMES_def SettingEnum_set_def)
  have c33: "changed \<lparr>value = OverflowMode_BREAK, changed = True\<rparr>"
    by (rule changed_flag_contract [THEN conjunct2, THEN conjunct2, THEN conjunct2, THEN conjunct2, THEN conjunct2, THEN conjunct2, THEN conjunct2, THEN conjunct2, THEN conjunct2, THEN conjunct2, THEN conjunct2, THEN conjunct2, THEN conjunct2, THEN conjunct2, THEN conjunct2, THEN conjunct2, THEN conjunct2, THEN conjunct2, THEN conjunct2, THEN conjunct2, THEN conjunct2, THEN conjunct2, THEN conjunct2, THEN conjunct2, THEN conjunct2, THEN conjunct2, THEN conjunct2, THEN conjunct2, THEN conjunct2, THEN conjunct2, THEN conjunct2, THEN conjunct2, THEN conjunct1, THEN mp, OF e33])
  show ?thesis
    by (intro conjI) (fact e8 c8 e9 c9 e10 c10 e11 c11 e12 c12 e13 c13 e14 c14 h16_0 e16 c16 e17 c17 e18 c18 e21 c21 e22 c22 e23 c23 e25 c25 e26 c26 e28 c28 e29 c29 e30 c30 e32 c32 e33 c33)+
qed

text \<open>
  The claim as written fails for the string overload of the max-threads setting: on a
  cell whose flag is false, \<open>set("auto")\<close> succeeds, and so does \<open>set\<close> of the
  interchange value "auto(8)", and the flag is still false.
\<close>

theorem changed_flag_auto_counterexample:
  "SettingMaxThreads_set_String (\<lambda>s. Inr 0) 8 ''auto''
     \<lparr>value = 3, changed = False, is_auto = False\<rparr>
   = Inr \<lparr>value = 8, changed = False, is_auto = True\<rparr>
   \<and> SettingMaxThreads_set_Field (\<lambda>s. Inr 0) 8 (Field_String ''auto(8)'')
     \<lparr>value = 3, changed = False, is_auto = False\<rparr>
   = Inr \<lparr>value = 8, changed = False, is_auto = True\<rparr>
   \<and> changed \<lparr>value = 8 :: UInt64, changed = False, is_auto = True\<rparr> = False"
  by (simp add: SettingMaxThreads_set_Field_def SettingMaxThreads_set_String_def startsWith_def
      SettingMaxThreads_setAuto_def getAutoValue_def SettingMaxThreads_isChanged_def)


subsection \<open>The lock discipline\<close>

text \<open>
  The writes first: \<open>set\<close> and \<open>setChanged\<close> store under a unique lock; a copy
  assignment writes the fields of its destination holding only the shared lock of its
  source.
\<close>

lemma stores_under_unique_lock:
  "writes_locked (\<lambda>x. Unlocked) SettingString_set_body
   \<and> writes_locked (\<lambda>x. Unlocked) SettingString_setChanged_body
   \<and> writes_locked (\<lambda>x. Unlocked) SettingTimespan_set_Timespan_body
   \<and> writes_locked (\<lambda>x. Unlocked) SettingTimespan_setChanged_body
   \<and> writes_locked (\<lambda>x. Unlocked) SettingString_assign_body = False
   \<and> writes_locked (\<lambda>x. Unlocked) SettingTimespan_assign_body = False"
  by (simp add: SettingString_set_body_def SettingString_setChanged_body_def
      SettingTimespan_set_Timespan_body_def SettingTimespan_setChanged_body_def
      SettingString_assign_body_def SettingTimespan_assign_body_def)

text \<open>
  C9, the part of it that the code breaks. Of the member functions of the lock-based
  family that this file defines and that read a field, \<open>toString\<close>, \<open>toField\<close>, the copy
  constructors and the copy assignments read under a shared lock on the object they read;
  \<open>SettingString::serialize\<close> reads \<open>value\<close> with no lock held.
\<close>

theorem SettingString_serialize_reads_unlocked:
  "reads_locked (\<lambda>x. Unlocked) SettingString_toString_body
   \<and> reads_locked (\<lambda>x. Unlocked) SettingString_toField_body
   \<and> reads_locked (\<lambda>x. Unlocked) SettingString_copy_body
   \<and> reads_locked (\<lambda>x. Unlocked) SettingString_assign_body
   \<and> reads_locked (\<lambda>x. Unlocked) SettingTimespan_copy_body
   \<and> reads_locked (\<lambda>x. Unlocked) SettingTimespan_assign_body
   \<and> reads_locked (\<lambda>x. Unlocked) SettingString_serialize_body = False"
  by (simp add: SettingString_toString_body_def SettingString_toField_body_def
      SettingString_copy_body_def SettingString_assign_body_def SettingTimespan_copy_body_def
      SettingTimespan_assign_body_def SettingString_serialize_body_def)

subsection \<open>SettingNumber: the wire and the text form read back\<close>







end
